theory Spec2Isabelle
  imports Complex_Main "HOL-Library.Char_ord" "HOL-Library.List_Lexorder"
begin

section \<open>Strings\<close>

text \<open>
  Python strings are modelled as \<^typ>\<open>string\<close>. \<open>str.strip()\<close> removes leading and
  trailing white space and \<open>str.lower()\<close> lowers the letters; both are modelled on the
  ASCII range (the white space characters are those of Python's \<open>str.isspace\<close> below
  code point 128).
\<close>

definition is_space :: "char \<Rightarrow> bool" where
  "is_space c = (c \<in> set [CHR '' '', CHR 0x09, CHR 0x0A, CHR 0x0B, CHR 0x0C, CHR 0x0D,
                            CHR 0x1C, CHR 0x1D, CHR 0x1E, CHR 0x1F])"

definition strip :: "string \<Rightarrow> string" where
  "strip s = rev (dropWhile is_space (rev (dropWhile is_space s)))"

definition lower_char :: "char \<Rightarrow> char" where
  "lower_char c =
     (case map_of (zip ''ABCDEFGHIJKLMNOPQRSTUVWXYZ'' ''abcdefghijklmnopqrstuvwxyz'') c of
        Some d \<Rightarrow> d
      | None \<Rightarrow> c)"

definition lower :: "string \<Rightarrow> string" where
  "lower s = map lower_char s"

section \<open>cleaning\_rules.py: the Normalizer\<close>

subsection \<open>Data frames\<close>

text \<open>
  A pandas column is modelled by its dtype and its cells. \<open>Text\<close> is a column of dtype
  \<open>object\<close> or \<open>string\<close> holding strings and missing values; \<open>Float64\<close> is numpy
  \<open>float64\<close> with NaN as the missing value; \<open>Int64\<close> is numpy \<open>int64\<close>, which has no
  missing value; \<open>IntNA w\<close> is the nullable integer dtype of width \<open>w\<close> (\<open>Int8\<close>,
  \<open>Int16\<close>). A data frame is the list of its labelled columns, in order; all columns
  have the same length and the labels are distinct.
\<close>

datatype series =
    Text "string option list"
  | Float64 "rat option list"
  | Int64 "int list"
  | IntNA nat "int option list"

type_synonym dataframe = "(string \<times> series) list"

fun is_text :: "series \<Rightarrow> bool" where
  "is_text (Text _) = True"
| "is_text _ = False"

fun is_numeric_dtype :: "series \<Rightarrow> bool" where
  "is_numeric_dtype (Text _) = False"
| "is_numeric_dtype _ = True"

definition ID_COLS :: "string list" where
  "ID_COLS = [''crash_record_id'', ''vehicle_id'', ''person_id'']"

definition NUMERIC_COLS :: "string list" where
  "NUMERIC_COLS = [''posted_speed_limit'', ''lane_cnt'', ''street_no'']"

definition CATEGORICAL_COLS :: "string list" where
  "CATEGORICAL_COLS =
     [''traffic_control_device'', ''device_condition'', ''weather_condition'',
      ''lighting_condition'', ''trafficway_type'', ''alignment'',
      ''roadway_surface_cond'', ''road_defect'', ''street_name'',
      ''street_direction'', ''crash_type'', ''make'', ''model'',
      ''travel_direction'', ''person_type'']"

definition DATE_COL :: string where
  "DATE_COL = ''crash_date''"

definition DERIVED_DATE_COLS :: "string list" where
  "DERIVED_DATE_COLS = [''crash_year'', ''crash_month'', ''crash_day'', ''crash_hour'']"

definition KEEP_COLS :: "string list" where
  "KEEP_COLS = ID_COLS @ NUMERIC_COLS @ CATEGORICAL_COLS @ DERIVED_DATE_COLS"

definition YES_NO_TRUE_FALSE :: "(string \<times> int) list" where
  "YES_NO_TRUE_FALSE =
     [(''y'', 1), (''yes'', 1), (''true'', 1), (''t'', 1), (''1'', 1),
      (''n'', 0), (''no'', 0), (''false'', 0), (''f'', 0), (''0'', 0)]"

subsection \<open>Boolean inference\<close>

text \<open>
  \<open>_map_yes_no_to_int\<close> is only called under the text guard of \<open>_convert_yes_no\<close>, so
  the model takes the cells of a text column. \<open>vocab_lookup\<close> is
  \<open>s_str.map(YES_NO_TRUE_FALSE)\<close> on one cell: a missing cell and a string outside the
  vocabulary both give a missing value. The source returns the mapped column when
  \<open>len(nonnull) > 0 and set(nonnull.unique()) <= {0, 1}\<close>.
\<close>

definition vocab_lookup :: "string option \<Rightarrow> int option" where
  "vocab_lookup v =
     (case v of None \<Rightarrow> None | Some s \<Rightarrow> map_of YES_NO_TRUE_FALSE (lower (strip s)))"

definition dropna :: "'a option list \<Rightarrow> 'a list" where
  "dropna xs = [x. Some x \<leftarrow> xs]"

definition map_yes_no_to_int :: "string option list \<Rightarrow> series" where
  "map_yes_no_to_int cells =
     (let mapped = map vocab_lookup cells;
          nonnull = dropna mapped
      in if length nonnull > 0 \<and> set nonnull \<subseteq> {0, 1} then IntNA 8 mapped
         else Text cells)"

text \<open>
  \<open>_convert_yes_no\<close> visits the columns in order; a text column whose mapping came back
  as \<open>Int8\<close> is replaced in place and its label is appended to \<open>bool_cols\<close>.
\<close>

fun convert_yes_no :: "dataframe \<Rightarrow> dataframe \<times> string list" where
  "convert_yes_no [] = ([], [])"
| "convert_yes_no ((c, s) # df) =
     (let (df', bool_cols) = convert_yes_no df in
      case s of
        Text cells \<Rightarrow>
          (case map_yes_no_to_int cells of
             IntNA w mapped \<Rightarrow>
               if w = 8 then ((c, IntNA w mapped) # df', c # bool_cols)
               else ((c, s) # df', bool_cols)
           | _ \<Rightarrow> ((c, s) # df', bool_cols))
      | _ \<Rightarrow> ((c, s) # df', bool_cols))"

subsection \<open>Library functions taken as parameters\<close>

text \<open>
  Three pandas functions are not part of the repository and are taken as parameters:
  \<open>float_str\<close> is \<open>str\<close> of a \<open>float64\<close> value (used by \<open>astype("string")\<close>),
  \<open>to_numeric\<close> is \<open>pd.to_numeric(errors="coerce")\<close> on one string (\<open>None\<close> when it
  does not parse), and \<open>to_datetime s i\<close> gives year, month, day and hour of row \<open>i\<close>
  of \<open>pd.to_datetime(s, errors="coerce", utc=True)\<close> (\<open>None\<close> for \<open>NaT\<close>).
\<close>

record pandas_lib =
  float_str :: "rat \<Rightarrow> string"
  to_numeric :: "string \<Rightarrow> rat option"
  to_datetime :: "series \<Rightarrow> nat \<Rightarrow> (int \<times> int \<times> int \<times> int) option"

fun show_nat :: "nat \<Rightarrow> string" where
  "show_nat n =
     (if n < 10 then [''0123456789'' ! n]
      else show_nat (n div 10) @ [''0123456789'' ! (n mod 10)])"

declare show_nat.simps [simp del]

definition show_int :: "int \<Rightarrow> string" where
  "show_int i = (if i < 0 then CHR ''-'' # show_nat (nat (- i)) else show_nat (nat i))"

fun astype_string :: "pandas_lib \<Rightarrow> series \<Rightarrow> string option list" where
  "astype_string lib (Text xs) = xs"
| "astype_string lib (Float64 xs) = map (map_option (float_str lib)) xs"
| "astype_string lib (Int64 xs) = map (\<lambda>i. Some (show_int i)) xs"
| "astype_string lib (IntNA w xs) = map (map_option show_int) xs"

fun slen :: "series \<Rightarrow> nat" where
  "slen (Text xs) = length xs"
| "slen (Float64 xs) = length xs"
| "slen (Int64 xs) = length xs"
| "slen (IntNA w xs) = length xs"

definition columns :: "dataframe \<Rightarrow> string list" where
  "columns df = map fst df"

text \<open>\<open>df[c] = s\<close>: an existing column is replaced in place, a new one is appended.\<close>

fun set_col :: "string \<Rightarrow> series \<Rightarrow> dataframe \<Rightarrow> dataframe" where
  "set_col c s [] = [(c, s)]"
| "set_col c s ((d, t) # df) = (if d = c then (c, s) # df else (d, t) # set_col c s df)"

subsection \<open>Row selection\<close>

text \<open>
  \<open>pick msk xs\<close> keeps the cells whose msk entry is true. \<open>keep_last_mask\<close> is the
  negation of \<open>duplicated(keep="last")\<close>: a row is kept when its key does not occur again
  further down (missing keys compare equal to each other, as in pandas).
\<close>

definition pick :: "bool list \<Rightarrow> 'a list \<Rightarrow> 'a list" where
  "pick msk xs = map snd (filter fst (zip msk xs))"

fun keep_last_mask :: "'a list \<Rightarrow> bool list" where
  "keep_last_mask [] = []"
| "keep_last_mask (x # xs) = (x \<notin> set xs) # keep_last_mask xs"

fun series_keep_last :: "series \<Rightarrow> bool list" where
  "series_keep_last (Text xs) = keep_last_mask xs"
| "series_keep_last (Float64 xs) = keep_last_mask xs"
| "series_keep_last (Int64 xs) = keep_last_mask xs"
| "series_keep_last (IntNA w xs) = keep_last_mask xs"

fun pick_series :: "bool list \<Rightarrow> series \<Rightarrow> series" where
  "pick_series msk (Text xs) = Text (pick msk xs)"
| "pick_series msk (Float64 xs) = Float64 (pick msk xs)"
| "pick_series msk (Int64 xs) = Int64 (pick msk xs)"
| "pick_series msk (IntNA w xs) = IntNA w (pick msk xs)"

definition select_rows :: "bool list \<Rightarrow> dataframe \<Rightarrow> dataframe" where
  "select_rows msk df = map (\<lambda>(c, s). (c, pick_series msk s)) df"

definition drop_duplicates_last :: "string \<Rightarrow> dataframe \<Rightarrow> dataframe" where
  "drop_duplicates_last k df =
     (case map_of df k of
        None \<Rightarrow> df
      | Some s \<Rightarrow> select_rows (series_keep_last s) df)"

subsection \<open>Coercion, text normalisation, date parts\<close>

text \<open>
  \<open>pd.to_numeric\<close> leaves a numeric column as it is and parses a text column cell by
  cell. (pandas gives \<open>int64\<close> instead of \<open>float64\<close> when every cell parses to an
  integer; the values are the same and the model keeps the one numpy dtype.)
\<close>

fun to_numeric_series :: "pandas_lib \<Rightarrow> series \<Rightarrow> series" where
  "to_numeric_series lib (Text xs) =
     Float64 (map (\<lambda>v. case v of None \<Rightarrow> None | Some s \<Rightarrow> to_numeric lib s) xs)"
| "to_numeric_series lib s = s"

definition coerce_numeric :: "pandas_lib \<Rightarrow> dataframe \<Rightarrow> dataframe" where
  "coerce_numeric lib df =
     map (\<lambda>(c, s). if c \<in> set NUMERIC_COLS then (c, to_numeric_series lib s) else (c, s)) df"

definition to_lower_stripped :: "pandas_lib \<Rightarrow> series \<Rightarrow> series" where
  "to_lower_stripped lib s = Text (map (map_option (\<lambda>x. lower (strip x))) (astype_string lib s))"

definition normalize_text :: "pandas_lib \<Rightarrow> dataframe \<Rightarrow> dataframe" where
  "normalize_text lib df =
     map (\<lambda>(c, s).
            if c \<in> set ID_COLS then (c, Text (map (map_option strip) (astype_string lib s)))
            else if is_text s then (c, to_lower_stripped lib s)
            else (c, s)) df"

definition date_part ::
  "pandas_lib \<Rightarrow> series \<Rightarrow> ((int \<times> int \<times> int \<times> int) \<Rightarrow> int) \<Rightarrow> int option list" where
  "date_part lib s f = map (\<lambda>i. map_option f (to_datetime lib s i)) [0..<slen s]"

definition split_crash_datetime :: "pandas_lib \<Rightarrow> dataframe \<Rightarrow> dataframe" where
  "split_crash_datetime lib df =
     (case map_of df DATE_COL of
        None \<Rightarrow> df
      | Some s \<Rightarrow>
          set_col ''crash_hour'' (IntNA 8 (date_part lib s (\<lambda>(y, m, d, h). h)))
            (set_col ''crash_day'' (IntNA 8 (date_part lib s (\<lambda>(y, m, d, h). d)))
              (set_col ''crash_month'' (IntNA 8 (date_part lib s (\<lambda>(y, m, d, h). m)))
                (set_col ''crash_year'' (IntNA 16 (date_part lib s (\<lambda>(y, m, d, h). y))) df))))"

subsection \<open>Imputation\<close>

text \<open>The exceptions of Python, DuckDB and polars that the modelled code can raise.\<close>

datatype error =
    ValueError | TypeError | AttributeError | FileNotFoundError | OtherError
  | ParserException | CatalogException | BinderException | ConstraintException
  | ConversionException | InvalidInputException
  | ColumnNotFoundError | DuplicateError

text \<open>
  \<open>median\<close> is \<open>Series.median(skipna=True)\<close> on the present values (\<open>None\<close> when there is
  none, which pandas reports as a missing value). \<open>fillna\<close> on a nullable integer
  column stores the fill value only when it is integral; pandas raises \<open>TypeError\<close>
  for any other value when the column has a missing cell.
\<close>

definition median :: "rat list \<Rightarrow> rat option" where
  "median vals =
     (let sorted = sort vals; n = length vals in
      if n = 0 then None
      else if odd n then Some (sorted ! (n div 2))
      else Some ((sorted ! (n div 2 - 1) + sorted ! (n div 2)) / 2))"

definition fill :: "'a \<Rightarrow> 'a option list \<Rightarrow> 'a option list" where
  "fill v xs = map (\<lambda>x. case x of None \<Rightarrow> Some v | Some y \<Rightarrow> Some y) xs"

definition is_integral :: "rat \<Rightarrow> bool" where
  "is_integral q = (of_int \<lfloor>q\<rfloor> = q)"

fun impute_numeric :: "series \<Rightarrow> error + series" where
  "impute_numeric (Text xs) = Inr (Text xs)"
| "impute_numeric (Int64 xs) = Inr (Int64 xs)"
| "impute_numeric (Float64 xs) =
     (let med = (case median (dropna xs) of None \<Rightarrow> 0 | Some m \<Rightarrow> m)
      in Inr (Float64 (fill med xs)))"
| "impute_numeric (IntNA w xs) =
     (let med = (case median (map of_int (dropna xs)) of None \<Rightarrow> 0 | Some m \<Rightarrow> m)
      in if None \<notin> set xs then Inr (IntNA w xs)
         else if is_integral med then Inr (IntNA w (fill \<lfloor>med\<rfloor> xs))
         else Inl TypeError)"

text \<open>The first loop of \<open>_impute_missing\<close>; an exception leaves the loop at once.\<close>

fun impute_numeric_cols :: "string list \<Rightarrow> dataframe \<Rightarrow> error + dataframe" where
  "impute_numeric_cols bool_cols [] = Inr []"
| "impute_numeric_cols bool_cols ((c, s) # df) =
     (if c \<in> set bool_cols then
        (case impute_numeric_cols bool_cols df of
           Inl e \<Rightarrow> Inl e
         | Inr df' \<Rightarrow> Inr ((c, s) # df'))
      else
        (case impute_numeric s of
           Inl e \<Rightarrow> Inl e
         | Inr s' \<Rightarrow>
             (case impute_numeric_cols bool_cols df of
                Inl e \<Rightarrow> Inl e
              | Inr df' \<Rightarrow> Inr ((c, s') # df'))))"

text \<open>The second loop: text columns other than the id columns get the sentinel.\<close>

definition impute_text_cols :: "dataframe \<Rightarrow> dataframe" where
  "impute_text_cols df =
     map (\<lambda>(c, s). case s of
            Text xs \<Rightarrow> if c \<notin> set ID_COLS then (c, Text (fill ''missing'' xs)) else (c, s)
          | _ \<Rightarrow> (c, s)) df"

definition impute_missing :: "dataframe \<Rightarrow> string list \<Rightarrow> error + dataframe" where
  "impute_missing df bool_cols =
     (case impute_numeric_cols bool_cols df of
        Inl e \<Rightarrow> Inl e
      | Inr df' \<Rightarrow> Inr (impute_text_cols df'))"

subsection \<open>The pipeline\<close>

definition rename_col :: "string \<Rightarrow> string \<Rightarrow> dataframe \<Rightarrow> dataframe" where
  "rename_col a b df = map (\<lambda>(c, s). if c = a then (b, s) else (c, s)) df"

text \<open>
  The primary key is looked up under its name, then under the first alias present;
  \<open>None\<close> stands for the frame in which neither exists.
\<close>

definition ensure_pk :: "dataframe \<Rightarrow> dataframe option" where
  "ensure_pk df =
     (if ''crash_record_id'' \<in> set (columns df) then Some df
      else (case filter (\<lambda>alt. alt \<in> set (columns df)) [''record_id'', ''id'', ''crash_id''] of
              [] \<Rightarrow> None
            | alt # _ \<Rightarrow> Some (rename_col alt ''crash_record_id'' df)))"

definition pk_mask :: "string option list \<Rightarrow> bool list" where
  "pk_mask xs = map (\<lambda>v. v \<noteq> None \<and> v \<noteq> Some []) xs"

definition pk_hygiene :: "pandas_lib \<Rightarrow> dataframe \<Rightarrow> dataframe" where
  "pk_hygiene lib df =
     (case map_of df ''crash_record_id'' of
        None \<Rightarrow> df
      | Some s \<Rightarrow>
          (let ids = map (map_option strip) (astype_string lib s)
           in select_rows (pk_mask ids) (set_col ''crash_record_id'' (Text ids) df)))"

definition project :: "dataframe \<Rightarrow> dataframe" where
  "project df =
     concat (map (\<lambda>c. case map_of df c of None \<Rightarrow> [] | Some s \<Rightarrow> [(c, s)]) KEEP_COLS)"

definition apply_cleaning :: "pandas_lib \<Rightarrow> dataframe \<Rightarrow> error + dataframe" where
  "apply_cleaning lib df0 =
     (case ensure_pk df0 of
        None \<Rightarrow> Inl ValueError
      | Some df1 \<Rightarrow>
          (let df2 = drop_duplicates_last ''crash_record_id'' df1;
               df3 = coerce_numeric lib df2;
               df4 = normalize_text lib df3;
               (df5, bool_cols) = convert_yes_no df4;
               df6 = split_crash_datetime lib df5
           in case impute_missing df6 bool_cols of
                Inl e \<Rightarrow> Inl e
              | Inr df7 \<Rightarrow> Inr (project (pk_hygiene lib df7))))"

section \<open>duckdb\_writer.py: the Upsert Store\<close>

subsection \<open>The database\<close>

text \<open>
  DuckDB is not part of the repository; the statements the writer sends are modelled by
  their documented effect on a database state. A stored value is a \<open>sqlval\<close>, SQL
  \<open>NULL\<close> is \<open>None\<close>, and a row maps column names to values. A table has its columns
  in order (name, declared type, whether the column defaults to \<open>now()\<close>), the column
  of its \<open>PRIMARY KEY\<close> constraint if it has one, and its rows. A database maps table
  names to tables; a name stands for the identifier the catalog resolves it to
  (DuckDB compares identifiers without regard to case). Temporary tables and registered views of one connection are not
  part of the state. Every statement runs in its own transaction: a statement that
  raises leaves the database as it was, and the statements before it stay in effect.
\<close>

datatype sqlval = VText string | VInt int | VNum rat | VTime nat

type_synonym row = "string \<Rightarrow> sqlval option"

record table =
  tcols :: "(string \<times> string \<times> bool) list"
  tpk :: "string option"
  trows :: "row list"

type_synonym db = "string \<Rightarrow> table option"

definition col_names :: "table \<Rightarrow> string list" where
  "col_names T = map fst (tcols T)"

subsection \<open>The incoming data frame\<close>

text \<open>
  \<open>df.empty\<close> holds when the frame has no column or no row. DuckDB reads a registered
  frame row by row and infers one SQL type per column from its dtype.
\<close>

definition nrows :: "dataframe \<Rightarrow> nat" where
  "nrows df = (case df of [] \<Rightarrow> 0 | (c, s) # _ \<Rightarrow> slen s)"

definition df_empty :: "dataframe \<Rightarrow> bool" where
  "df_empty df = (columns df = [] \<or> nrows df = 0)"

fun cell_at :: "series \<Rightarrow> nat \<Rightarrow> sqlval option" where
  "cell_at (Text xs) i = (if i < length xs then map_option VText (xs ! i) else None)"
| "cell_at (Float64 xs) i = (if i < length xs then map_option VNum (xs ! i) else None)"
| "cell_at (Int64 xs) i = (if i < length xs then Some (VInt (xs ! i)) else None)"
| "cell_at (IntNA w xs) i = (if i < length xs then map_option VInt (xs ! i) else None)"

definition row_at :: "dataframe \<Rightarrow> nat \<Rightarrow> row" where
  "row_at df i = (\<lambda>c. case map_of df c of None \<Rightarrow> None | Some s \<Rightarrow> cell_at s i)"

definition df_rows :: "dataframe \<Rightarrow> row list" where
  "df_rows df = map (row_at df) [0..<nrows df]"

fun sql_type :: "series \<Rightarrow> string" where
  "sql_type (Text xs) = ''VARCHAR''"
| "sql_type (Float64 xs) = ''DOUBLE''"
| "sql_type (Int64 xs) = ''BIGINT''"
| "sql_type (IntNA w xs) = (if w = 8 then ''TINYINT'' else if w = 16 then ''SMALLINT'' else ''BIGINT'')"

text \<open>\<open>_infer_df_types\<close>: the column types of a table created from the empty frame.\<close>

definition infer_df_types :: "dataframe \<Rightarrow> (string \<times> string) list" where
  "infer_df_types df = map (\<lambda>(c, s). (c, sql_type s)) df"

subsection \<open>Statements\<close>

text \<open>\<open>CREATE TABLE IF NOT EXISTS t AS SELECT * FROM df.head(0)\<close>.\<close>

definition create_table_as :: "string \<Rightarrow> dataframe \<Rightarrow> db \<Rightarrow> db" where
  "create_table_as t df d =
     (case d t of
        Some T \<Rightarrow> d
      | None \<Rightarrow> d(t \<mapsto> \<lparr>tcols = map (\<lambda>(c, ty). (c, ty, False)) (infer_df_types df),
                          tpk = None, trows = []\<rparr>))"

text \<open>
  \<open>ALTER TABLE t ADD CONSTRAINT .. PRIMARY KEY (pk)\<close>: a catalog error when the table is
  missing or has a primary key already, a binder error when the column is missing, a
  constraint error when the stored keys are not unique and present.
\<close>

definition add_primary_key :: "string \<Rightarrow> string \<Rightarrow> db \<Rightarrow> error + db" where
  "add_primary_key t pk d =
     (case d t of
        None \<Rightarrow> Inl CatalogException
      | Some T \<Rightarrow>
          if tpk T \<noteq> None then Inl CatalogException
          else if pk \<notin> set (col_names T) then Inl BinderException
          else if None \<in> set (map (\<lambda>r. r pk) (trows T)) \<or> \<not> distinct (map (\<lambda>r. r pk) (trows T))
            then Inl ConstraintException
          else Inr (d(t \<mapsto> T\<lparr>tpk := Some pk\<rparr>)))"

text \<open>\<open>ALTER TABLE t ADD COLUMN c ty\<close>: the stored rows read \<open>NULL\<close> in the new column.\<close>

definition add_column :: "string \<Rightarrow> string \<Rightarrow> string \<Rightarrow> db \<Rightarrow> error + db" where
  "add_column t c ty d =
     (case d t of
        None \<Rightarrow> Inl CatalogException
      | Some T \<Rightarrow>
          if c \<in> set (col_names T) then Inl CatalogException
          else Inr (d(t \<mapsto> T\<lparr>tcols := tcols T @ [(c, ty, False)],
                                trows := map (\<lambda>r. r(c := None)) (trows T)\<rparr>)))"

text \<open>
  \<open>INSERT INTO t (cols) .. ON CONFLICT (k) DO ..\<close>. An assignment of \<open>DO UPDATE SET\<close>
  takes the value of the proposed row (\<open>excluded.c\<close>) or the clock (\<open>now()\<close>); no
  assignment means \<open>DO NOTHING\<close>. The proposed row has the source's value in the listed
  columns and the default in the others. The statement is rejected by the binder
  unless the listed and the assigned columns exist and \<open>k\<close> carries the primary key. It
  raises a conversion error when an integer does not fit the integer type of its
  column, and a constraint error on a \<open>NULL\<close> key. The rows are applied in the order
  of the source: a row whose key is stored updates the row stored under it, also when
  an earlier row of the same statement stored it. (A value of another kind than its
  column's type is stored as it is given: the implicit casts between kinds are not
  modelled.)
\<close>

datatype expr = Excluded string | Now

definition proposed :: "table \<Rightarrow> nat \<Rightarrow> string list \<Rightarrow> row \<Rightarrow> row" where
  "proposed T now cols src =
     (\<lambda>c. if c \<in> set cols then src c
          else if (c, True) \<in> set (map (\<lambda>(n, ty, dn). (n, dn)) (tcols T)) then Some (VTime now)
          else None)"

definition eval_expr :: "nat \<Rightarrow> row \<Rightarrow> expr \<Rightarrow> sqlval option" where
  "eval_expr now new e = (case e of Excluded c \<Rightarrow> new c | Now \<Rightarrow> Some (VTime now))"

fun assign :: "nat \<Rightarrow> row \<Rightarrow> (string \<times> expr) list \<Rightarrow> row \<Rightarrow> row" where
  "assign now new [] r = r"
| "assign now new ((c, e) # as) r = assign now new as (r(c := eval_expr now new e))"

text \<open>The ranges of DuckDB's signed integer types; \<open>row_fits\<close> checks a proposed row.\<close>

definition int_range :: "string \<Rightarrow> (int \<times> int) option" where
  "int_range ty =
     (if ty = ''TINYINT'' then Some (- 128, 127)
      else if ty = ''SMALLINT'' then Some (- 32768, 32767)
      else if ty = ''INTEGER'' then Some (- 2147483648, 2147483647)
      else if ty = ''BIGINT'' then Some (- 9223372036854775808, 9223372036854775807)
      else None)"

definition fits :: "string \<Rightarrow> sqlval option \<Rightarrow> bool" where
  "fits ty v =
     (case int_range ty of
        None \<Rightarrow> True
      | Some (lo, hi) \<Rightarrow> (case v of Some (VInt i) \<Rightarrow> lo \<le> i \<and> i \<le> hi | _ \<Rightarrow> True))"

definition row_fits :: "table \<Rightarrow> row \<Rightarrow> bool" where
  "row_fits T r = list_all (\<lambda>(c, ty, dn). fits ty (r c)) (tcols T)"

definition put_row :: "nat \<Rightarrow> string \<Rightarrow> (string \<times> expr) list \<Rightarrow> row list \<Rightarrow> row \<Rightarrow> row list" where
  "put_row now k as rows new =
     (if new k \<in> set (map (\<lambda>r. r k) rows)
      then map (\<lambda>r. if r k = new k then assign now new as r else r) rows
      else rows @ [new])"

definition insert_on_conflict ::
  "nat \<Rightarrow> string \<Rightarrow> string list \<Rightarrow> row list \<Rightarrow> string \<Rightarrow> (string \<times> expr) list \<Rightarrow> db \<Rightarrow> error + db" where
  "insert_on_conflict now t cols src k as d =
     (case d t of
        None \<Rightarrow> Inl CatalogException
      | Some T \<Rightarrow>
          if \<not> set cols \<subseteq> set (col_names T) \<or> \<not> set (map fst as) \<subseteq> set (col_names T)
             \<or> tpk T \<noteq> Some k then Inl BinderException
          else
            let news = map (proposed T now cols) src in
            if \<not> list_all (row_fits T) news then Inl ConversionException
            else if None \<in> set (map (\<lambda>r. r k) news) then Inl ConstraintException
            else Inr (d(t \<mapsto> T\<lparr>trows := foldl (put_row now k as) (trows T) news\<rparr>)))"

text \<open>\<open>SELECT COUNT(*) FROM t JOIN s ON t.k = s.k\<close>: \<open>NULL\<close> joins with nothing.\<close>

definition count_join :: "string \<Rightarrow> row list \<Rightarrow> row list \<Rightarrow> nat" where
  "count_join k rows src =
     length [(r, s). r \<leftarrow> rows, s \<leftarrow> src, r k \<noteq> None \<and> r k = s k]"

subsection \<open>The writer\<close>

text \<open>
  The text of the statement of \<open>_init_meta\<close>, as the tokens DuckDB's parser reads up to
  the column list. \<open>create_table_target\<close> is the grammar of the head of a
  \<open>CREATE TABLE\<close> statement: the optional \<open>IF NOT EXISTS\<close>, the table name, the opening
  parenthesis.
\<close>

definition init_meta_sql :: "string list" where
  "init_meta_sql = [''CREATE'', ''TABLE'', ''IF'', ''NOT'', ''E'', ''('', ''corr_id'', ''TEXT'',
                     ''PRIMARY'', ''KEY'', '','']"

definition create_table_target :: "string list \<Rightarrow> string option" where
  "create_table_target toks =
     (if take 5 toks = [''CREATE'', ''TABLE'', ''IF'', ''NOT'', ''EXISTS'']
         \<and> 7 \<le> length toks \<and> toks ! 6 = ''('' then Some (toks ! 5)
      else if take 2 toks = [''CREATE'', ''TABLE''] \<and> 4 \<le> length toks \<and> toks ! 3 = ''(''
        then Some (toks ! 2)
      else None)"

definition ledger_cols :: "(string \<times> string \<times> bool) list" where
  "ledger_cols = [(''corr_id'', ''TEXT'', False), (''table_name'', ''TEXT'', False),
                  (''row_count'', ''BIGINT'', False), (''processed_at'', ''TIMESTAMP'', True)]"

definition init_meta :: "db \<Rightarrow> (error + unit) \<times> db" where
  "init_meta d =
     (case create_table_target init_meta_sql of
        None \<Rightarrow> (Inl ParserException, d)
      | Some t \<Rightarrow>
          (case d t of
             Some T \<Rightarrow> (Inr (), d)
           | None \<Rightarrow> (Inr (), d(t \<mapsto> \<lparr>tcols = ledger_cols, tpk = Some ''corr_id'', trows = []\<rparr>))))"

text \<open>\<open>_ensure_table\<close> swallows the catalog and the conversion error of the constraint.\<close>

definition ensure_table :: "string \<Rightarrow> dataframe \<Rightarrow> string \<Rightarrow> db \<Rightarrow> (error + unit) \<times> db" where
  "ensure_table t df pk d =
     (let d1 = create_table_as t df d in
      case add_primary_key t pk d1 of
        Inr d2 \<Rightarrow> (Inr (), d2)
      | Inl e \<Rightarrow> if e = CatalogException \<or> e = ConversionException then (Inr (), d1)
                 else (Inl e, d1))"

text \<open>The loop of \<open>_evolve_schema\<close>: one \<open>ADD COLUMN\<close> after the other.\<close>

fun add_columns :: "string \<Rightarrow> (string \<times> string) list \<Rightarrow> string list \<Rightarrow> db \<Rightarrow> (error + unit) \<times> db" where
  "add_columns t inferred [] d = (Inr (), d)"
| "add_columns t inferred (c # cs) d =
     (case add_column t c (case map_of inferred c of None \<Rightarrow> ''TEXT'' | Some ty \<Rightarrow> ty) d of
        Inl e \<Rightarrow> (Inl e, d)
      | Inr d' \<Rightarrow> add_columns t inferred cs d')"

definition needed_cols :: "table \<Rightarrow> dataframe \<Rightarrow> string list" where
  "needed_cols T df = filter (\<lambda>c. c \<notin> set (col_names T)) (columns df)"

definition evolve_schema :: "string \<Rightarrow> dataframe \<Rightarrow> db \<Rightarrow> (error + unit) \<times> db" where
  "evolve_schema t df d =
     (case d t of
        None \<Rightarrow> (Inl CatalogException, d)
      | Some T \<Rightarrow>
          (let needed = needed_cols T df in
           if needed = [] then (Inr (), d)
           else add_columns t (infer_df_types df) needed d))"

text \<open>
  The column list of the \<open>INSERT\<close> (\<open>cols\<close>: the frame's columns that the table has,
  and \<open>pk\<close>), and its \<open>DO UPDATE SET\<close> list (\<open>update_set\<close>: every column of \<open>cols\<close>
  but \<open>pk\<close>, from \<open>excluded\<close>).
\<close>

definition upsert_cols :: "table \<Rightarrow> dataframe \<Rightarrow> string \<Rightarrow> string list" where
  "upsert_cols T df pk =
     (let cols = filter (\<lambda>c. c \<in> set (col_names T)) (columns df)
      in if pk \<notin> set cols then cols @ [pk] else cols)"

definition update_set :: "string list \<Rightarrow> string \<Rightarrow> (string \<times> expr) list" where
  "update_set cols pk = map (\<lambda>c. (c, Excluded c)) (filter (\<lambda>c. c \<noteq> pk) cols)"

definition upsert_rows :: "nat \<Rightarrow> string \<Rightarrow> dataframe \<Rightarrow> string \<Rightarrow> db \<Rightarrow> (error + nat) \<times> db" where
  "upsert_rows now t df pk d =
     (case d t of
        None \<Rightarrow> (Inl CatalogException, d)
      | Some T \<Rightarrow>
          (case insert_on_conflict now t (upsert_cols T df pk) (df_rows df) pk
                  (update_set (upsert_cols T df pk) pk) d of
             Inl e \<Rightarrow> (Inl e, d)
           | Inr d' \<Rightarrow>
               (case d' t of
                  None \<Rightarrow> (Inl CatalogException, d')
                | Some T' \<Rightarrow> (Inr (count_join pk (trows T') (df_rows df)), d'))))"

text \<open>
  \<open>upsert\<close> returns the matched count or the exception, and the database it leaves.
  \<open>now\<close> is the reading of the database clock (for columns that default to it).
\<close>

definition upsert :: "db \<Rightarrow> nat \<Rightarrow> string \<Rightarrow> dataframe \<Rightarrow> string \<Rightarrow> (error + nat) \<times> db" where
  "upsert d now t df pk =
     (if df_empty df then (Inr 0, d)
      else if pk \<notin> set (columns df) then (Inl ValueError, d)
      else
        (case ensure_table t df pk d of
           (Inl e, d1) \<Rightarrow> (Inl e, d1)
         | (Inr u, d1) \<Rightarrow>
             (case evolve_schema t df d1 of
                (Inl e, d2) \<Rightarrow> (Inl e, d2)
              | (Inr u, d2) \<Rightarrow> upsert_rows now t df pk d2)))"

text \<open>
  \<open>record_run\<close>; \<open>now\<close> is the reading of the database clock. \<open>ledger_values\<close> is the
  \<open>VALUES (?, ?, ?)\<close> row and \<open>ledger_update\<close> the \<open>DO UPDATE SET\<close> list.
\<close>

definition ledger_values :: "string \<Rightarrow> string \<Rightarrow> int \<Rightarrow> row" where
  "ledger_values corr_id t rows =
     (\<lambda>c. None)(''corr_id'' \<mapsto> VText corr_id, ''table_name'' \<mapsto> VText t,
                  ''row_count'' \<mapsto> VInt rows)"

definition ledger_update :: "(string \<times> expr) list" where
  "ledger_update = [(''table_name'', Excluded ''table_name''),
                    (''row_count'', Excluded ''row_count''), (''processed_at'', Now)]"

definition record_run :: "db \<Rightarrow> nat \<Rightarrow> string \<Rightarrow> string \<Rightarrow> int \<Rightarrow> (error + unit) \<times> db" where
  "record_run d now corr_id t rows =
     (case insert_on_conflict now ''_clean_runs'' [''corr_id'', ''table_name'', ''row_count'']
             [ledger_values corr_id t rows] ''corr_id'' ledger_update d of
        Inl e \<Rightarrow> (Inl e, d)
      | Inr d' \<Rightarrow> (Inr (), d'))"

text \<open>A run of the cleaner's calls to \<open>record_run\<close>, stopped by the first exception.\<close>

fun record_runs :: "db \<Rightarrow> (nat \<times> string \<times> string \<times> int) list \<Rightarrow> (error + unit) \<times> db" where
  "record_runs d [] = (Inr (), d)"
| "record_runs d ((now, corr_id, t, rows) # calls) =
     (case record_run d now corr_id t rows of
        (Inl e, d') \<Rightarrow> (Inl e, d')
      | (Inr u, d') \<Rightarrow> record_runs d' calls)"

text \<open>
  The two writes of the cleaner's \<open>handle\<close> for one job (cleaner.py, after
  \<open>apply_cleaning\<close>): \<open>upsert\<close> into \<open>crashes\<close>, then \<open>record_run\<close> with the number of rows
  of the batch. An exception of either ends the job.
\<close>

definition write_gold :: "db \<Rightarrow> nat \<Rightarrow> string \<Rightarrow> dataframe \<Rightarrow> (error + nat) \<times> db" where
  "write_gold d now corr_id clean_df =
     (case upsert d now ''crashes'' clean_df ''crash_record_id'' of
        (Inl e, d1) \<Rightarrow> (Inl e, d1)
      | (Inr affected, d1) \<Rightarrow>
          (case record_run d1 now corr_id ''crashes'' (int (nrows clean_df)) of
             (Inl e, d2) \<Rightarrow> (Inl e, d2)
           | (Inr u, d2) \<Rightarrow> (Inr affected, d2)))"

subsection \<open>Notions used in the statements\<close>

text \<open>
  \<open>ledger_count d c\<close> is the number of ledger rows of the correlation id \<open>c\<close>.
  \<open>pk_ok T\<close> says that the rows of \<open>T\<close> satisfy its primary key constraint, which
  DuckDB maintains for every table. \<open>ledger_ready d\<close> says that the store is
  initialized: the ledger table exists in \<open>d\<close> with the columns and the primary key
  that the statement of \<open>_init_meta\<close> lists. \<open>fresh_store\<close> is the database of a new
  file.
\<close>

text \<open>\<open>count_pairs\<close> counts the pairs of equal, present keys of two key lists.\<close>

definition count_pairs :: "sqlval option list \<Rightarrow> sqlval option list \<Rightarrow> nat" where
  "count_pairs as bs = length [(a, b). a \<leftarrow> as, b \<leftarrow> bs, a \<noteq> None \<and> a = b]"

definition ledger_keys :: "db \<Rightarrow> sqlval option list" where
  "ledger_keys d = (case d ''_clean_runs'' of None \<Rightarrow> [] | Some L \<Rightarrow> map (\<lambda>r. r ''corr_id'') (trows L))"

definition ledger_count :: "db \<Rightarrow> string \<Rightarrow> nat" where
  "ledger_count d c = count_list (ledger_keys d) (Some (VText c))"

definition pk_ok :: "table \<Rightarrow> bool" where
  "pk_ok T = (case tpk T of
                None \<Rightarrow> True
              | Some k \<Rightarrow> distinct (map (\<lambda>r. r k) (trows T)) \<and> None \<notin> set (map (\<lambda>r. r k) (trows T)))"

definition ledger_ready :: "db \<Rightarrow> bool" where
  "ledger_ready d =
     (case d ''_clean_runs'' of
        None \<Rightarrow> False
      | Some L \<Rightarrow> tcols L = ledger_cols \<and> tpk L = Some ''corr_id'' \<and> pk_ok L)"

text \<open>
  \<open>ledger_entry d c\<close> is what the ledger records for the correlation id \<open>c\<close>: the
  table name, the row count and the time of the first row stored under \<open>c\<close>.
  \<open>last_call c calls\<close> is the last call of \<open>calls\<close> for \<open>c\<close>. \<open>in_bigint\<close> is the range of
  the ledger's \<open>row_count\<close> column.
\<close>

definition ledger_entry :: "db \<Rightarrow> string \<Rightarrow> (sqlval option \<times> sqlval option \<times> sqlval option) option" where
  "ledger_entry d c =
     (case d ''_clean_runs'' of
        None \<Rightarrow> None
      | Some L \<Rightarrow>
          map_option (\<lambda>r. (r ''table_name'', r ''row_count'', r ''processed_at''))
            (find (\<lambda>r. r ''corr_id'' = Some (VText c)) (trows L)))"

definition last_call :: "string \<Rightarrow> (nat \<times> string \<times> string \<times> int) list \<Rightarrow> (nat \<times> string \<times> string \<times> int) option" where
  "last_call c calls = find (\<lambda>(now, c', t, n). c' = c) (rev calls)"

definition in_bigint :: "int \<Rightarrow> bool" where
  "in_bigint n = (- 9223372036854775808 \<le> n \<and> n \<le> 9223372036854775807)"

definition fresh_store :: db where
  "fresh_store = (\<lambda>t. None)"

text \<open>\<open>blank cs r\<close> is the row \<open>r\<close> reading \<open>NULL\<close> in the columns \<open>cs\<close>.\<close>

definition blank :: "string list \<Rightarrow> row \<Rightarrow> row" where
  "blank cs r = (\<lambda>c. if c \<in> set cs then None else r c)"

subsection \<open>Example data\<close>

text \<open>
  A store with an empty ledger and a gold table of one row; a batch of two rows that
  brings a new column and overwrites nothing.
\<close>

definition ex_gold :: table where
  "ex_gold = \<lparr>tcols = [(''crash_record_id'', ''VARCHAR'', False)], tpk = Some ''crash_record_id'',
              trows = [(\<lambda>c. None)(''crash_record_id'' \<mapsto> VText ''X1'')]\<rparr>"

definition ex_ledger :: table where
  "ex_ledger = \<lparr>tcols = ledger_cols, tpk = Some ''corr_id'', trows = []\<rparr>"

definition ex_store :: db where
  "ex_store = (\<lambda>t. None)(''crashes'' \<mapsto> ex_gold, ''_clean_runs'' \<mapsto> ex_ledger)"

definition ex_batch :: dataframe where
  "ex_batch = [(''crash_record_id'', Text [Some ''X2'', Some ''X3'']),
               (''make'', Text [Some ''ford'', None])]"

text \<open>The example gold table after the schema of the example batch has been added.\<close>

definition ex_gold2 :: table where
  "ex_gold2 = \<lparr>tcols = [(''crash_record_id'', ''VARCHAR'', False), (''make'', ''VARCHAR'', False)],
      tpk = Some ''crash_record_id'',
      trows = [((\<lambda>c. None)(''crash_record_id'' \<mapsto> VText ''X1''))(''make'' := None)]\<rparr>"


text \<open>The gold table that the example batch creates in a new file, before its rows.\<close>

definition ex_created :: table where
  "ex_created = \<lparr>tcols = [(''crash_record_id'', ''VARCHAR'', False), (''make'', ''VARCHAR'', False)],
      tpk = Some ''crash_record_id'', trows = []\<rparr>"

section \<open>transformer.py and cleaner.py: the stage orchestrators\<close>

subsection \<open>Messages\<close>

text \<open>
  A message body is the value \<open>json.loads\<close> gives for it, or \<open>None\<close> when decoding or
  parsing raises. An object is the list of its members, one for each key. \<open>truthy\<close> is
  Python's truth value, \<open>py_str\<close> is \<open>str\<close>; \<open>str\<close> of a list or an object is taken as a
  parameter. The outcome of a queue callback is the acknowledgement it sends:
  \<open>basic_ack\<close>, or \<open>basic_nack\<close> with its \<open>requeue\<close> flag.
\<close>

datatype json =
    JNull | JBool bool | JNum int | JStr string | JArr "json list" | JObj "(string \<times> json) list"

datatype ack = Ack | Nack bool

fun truthy :: "json \<Rightarrow> bool" where
  "truthy JNull = False"
| "truthy (JBool b) = b"
| "truthy (JNum n) = (n \<noteq> 0)"
| "truthy (JStr s) = (s \<noteq> [])"
| "truthy (JArr xs) = (xs \<noteq> [])"
| "truthy (JObj kvs) = (kvs \<noteq> [])"

text \<open>\<open>dict.get(k)\<close>: the member, or \<open>None\<close> (\<open>JNull\<close>) when the key is absent.\<close>

definition dict_get :: "(string \<times> json) list \<Rightarrow> string \<Rightarrow> json" where
  "dict_get kvs k = (case map_of kvs k of None \<Rightarrow> JNull | Some v \<Rightarrow> v)"

fun py_str :: "(json \<Rightarrow> string) \<Rightarrow> json \<Rightarrow> string" where
  "py_str repr JNull = ''None''"
| "py_str repr (JBool b) = (if b then ''True'' else ''False'')"
| "py_str repr (JNum n) = show_int n"
| "py_str repr (JStr s) = s"
| "py_str repr v = repr v"

text \<open>\<open>a or b\<close>: the first operand when it is true, the second otherwise.\<close>

definition py_or :: "json \<Rightarrow> json \<Rightarrow> json" where
  "py_or a b = (if truthy a then a else b)"

subsection \<open>The transformer's callback\<close>

text \<open>
  \<open>run_transform_job\<close> raises \<open>ValueError\<close> when the correlation id or the output
  bucket is missing; \<open>env_bucket\<close> is the environment variable \<open>XFORM_BUCKET\<close>. What
  follows (object store, merge, publishing) is the parameter \<open>job\<close>: the exception it
  ends with, or its return.
\<close>

definition run_transform_job ::
  "string option \<Rightarrow> ((string \<times> json) list \<Rightarrow> error + unit) \<Rightarrow> (string \<times> json) list \<Rightarrow> error + unit" where
  "run_transform_job env_bucket job msg =
     (let corr = dict_get msg ''corr_id'';
          out_bucket = py_or (dict_get msg ''xform_bucket'')
                         (py_or (dict_get msg ''clean_bucket'')
                            (case env_bucket of None \<Rightarrow> JNull | Some b \<Rightarrow> JStr b))
      in if \<not> truthy corr \<or> \<not> truthy out_bucket then Inl ValueError else job msg)"

text \<open>
  \<open>on_msg\<close>: a body that does not parse, or parses to something that has no \<open>get\<close>,
  ends in the \<open>except\<close> branch; a type other than \<open>transform\<close> and \<open>clean\<close> is
  acknowledged and ignored; otherwise the job runs.
\<close>

definition on_msg ::
  "string option \<Rightarrow> ((string \<times> json) list \<Rightarrow> error + unit) \<Rightarrow> json option \<Rightarrow> ack" where
  "on_msg env_bucket job body =
     (case body of
        None \<Rightarrow> Nack False
      | Some (JObj msg) \<Rightarrow>
          (let mtype = (case map_of msg ''type'' of None \<Rightarrow> JStr [] | Some v \<Rightarrow> v) in
           if mtype \<noteq> JStr ''transform'' \<and> mtype \<noteq> JStr ''clean'' then Ack
           else (case run_transform_job env_bucket job msg of
                   Inl e \<Rightarrow> Nack False
                 | Inr u \<Rightarrow> Ack))
      | Some v \<Rightarrow> Nack False)"

subsection \<open>The cleaner's callback\<close>

text \<open>
  \<open>get_corr_id_from_message\<close>: \<open>header\<close> is the \<open>corr_id\<close> header when the message has
  one. Without it the body is parsed; a body that is no object ends in the \<open>except\<close>
  branch.
\<close>

definition get_corr_id_from_message ::
  "(json \<Rightarrow> string) \<Rightarrow> json option \<Rightarrow> json option \<Rightarrow> string option" where
  "get_corr_id_from_message repr header body =
     (case header of
        Some h \<Rightarrow> Some (py_str repr h)
      | None \<Rightarrow>
          (case body of
             Some (JObj payload) \<Rightarrow> Some (py_str repr (dict_get payload ''corr_id''))
           | _ \<Rightarrow> None))"

text \<open>
  \<open>handle\<close>: without a correlation id (\<open>None\<close> or the empty string) the message is
  rejected; otherwise the job (download, cleaning, upsert, ledger) runs for the id, and
  \<open>job\<close> is the exception it ends with, or its return.
\<close>

definition handle ::
  "(json \<Rightarrow> string) \<Rightarrow> (string \<Rightarrow> error + unit) \<Rightarrow> json option \<Rightarrow> json option \<Rightarrow> ack" where
  "handle repr job header body =
     (case get_corr_id_from_message repr header body of
        None \<Rightarrow> Nack False
      | Some corr_id \<Rightarrow>
          if corr_id = [] then Nack False
          else (case job corr_id of Inl e \<Rightarrow> Nack False | Inr u \<Rightarrow> Ack))"

section \<open>transformer.py: the Merger\<close>

subsection \<open>Frames\<close>

text \<open>
  A polars frame has its columns in order, each with its dtype, and its rows; a row
  gives the cell of every column by the column's name, and a null cell is \<open>None\<close>.
  Every operation reads a row at the columns of its frame only. \<open>PlNested\<close> stands for
  the list and struct dtypes of raw records, \<open>PNested\<close> for their values.
  \<open>pl.DataFrame()\<close> is the frame without columns and rows; \<open>is_empty\<close> is true of every
  frame without rows. \<open>record_row\<close> is the row of a record given as its fields.
\<close>

datatype pl_dtype = PlUtf8 | PlInt64 | PlFloat64 | PlBoolean | PlUInt32 | PlListUtf8 | PlNested

datatype pval = PStr string | PInt int | PNum rat | PBool bool | PList "string list" | PNested nat

type_synonym prow = "string \<Rightarrow> pval option"

record frame =
  fcols :: "(string \<times> pl_dtype) list"
  frows :: "prow list"

definition empty_frame :: frame where
  "empty_frame = \<lparr>fcols = [], frows = []\<rparr>"

definition is_empty :: "frame \<Rightarrow> bool" where
  "is_empty df = (frows df = [])"

definition names :: "frame \<Rightarrow> string list" where
  "names df = map fst (fcols df)"

definition record_row :: "(string \<times> pval option) list \<Rightarrow> prow" where
  "record_row kvs = (\<lambda>n. case map_of kvs n of None \<Rightarrow> None | Some v \<Rightarrow> v)"

definition frame_cells :: "frame \<Rightarrow> pval option list list" where
  "frame_cells df = map (\<lambda>r. map r (names df)) (frows df)"

text \<open>
  \<open>uniq_by f seen xs\<close> keeps, in order, the first element of \<open>xs\<close> for every value of
  \<open>f\<close> that is not in \<open>seen\<close>: \<open>unique(maintain_order=True)\<close> with \<open>f\<close> the frame_cells of the
  row, \<open>unique(subset=[c], keep="first", maintain_order=True)\<close> with \<open>f\<close> the cell of
  \<open>c\<close>. Nulls are equal to each other here, as in polars.
\<close>

fun uniq_by :: "('a \<Rightarrow> 'k) \<Rightarrow> 'k list \<Rightarrow> 'a list \<Rightarrow> 'a list" where
  "uniq_by f seen [] = []"
| "uniq_by f seen (x # xs) =
     (if f x \<in> set seen then uniq_by f seen xs else x # uniq_by f (f x # seen) xs)"

text \<open>\<open>df.rename\<close> raises when two columns get one name.\<close>

definition rename_cols :: "(string \<Rightarrow> string) \<Rightarrow> frame \<Rightarrow> error + frame" where
  "rename_cols f df =
     (if \<not> distinct (map f (names df)) then Inl DuplicateError
      else Inr \<lparr>fcols = map (\<lambda>(c, t). (f c, t)) (fcols df),
                frows = map (\<lambda>r n. case find (\<lambda>c. f c = n) (names df) of
                                       None \<Rightarrow> None | Some c \<Rightarrow> r c) (frows df)\<rparr>)"

definition unique_subset :: "string \<Rightarrow> frame \<Rightarrow> error + frame" where
  "unique_subset c df =
     (if c \<notin> set (names df) then Inl ColumnNotFoundError
      else Inr (df\<lparr>frows := uniq_by (\<lambda>r. r c) [] (frows df)\<rparr>))"

text \<open>
  The left join on one column. polars raises when the column is missing on a side or
  the two key dtypes differ. A column of the right frame whose name the left frame
  has gets the suffix \<open>_right\<close>, and the join raises when names still collide. Every
  left row is kept, in order, once for every right row with the same non-null key,
  and once with nulls in the columns of the right frame when there is none.
\<close>

definition right_name :: "frame \<Rightarrow> string \<Rightarrow> string" where
  "right_name left c = (if c \<in> set (names left) then c @ ''_right'' else c)"

definition join_row :: "frame \<Rightarrow> (string \<times> pl_dtype) list \<Rightarrow> prow \<Rightarrow> prow \<Rightarrow> prow" where
  "join_row left rcols l r =
     (\<lambda>n. if n \<in> set (names left) then l n
          else (case find (\<lambda>(c, t). right_name left c = n) rcols of
                  None \<Rightarrow> None
                | Some (c, t) \<Rightarrow> r c))"

definition matches :: "frame \<Rightarrow> string \<Rightarrow> prow \<Rightarrow> prow list" where
  "matches right c l = filter (\<lambda>r. l c \<noteq> None \<and> r c = l c) (frows right)"

definition join_left :: "frame \<Rightarrow> frame \<Rightarrow> string \<Rightarrow> error + frame" where
  "join_left left right c =
     (if c \<notin> set (names left) \<or> c \<notin> set (names right) then Inl ColumnNotFoundError
      else if map_of (fcols left) c \<noteq> map_of (fcols right) c then Inl OtherError
      else
        let rcols = filter (\<lambda>(n, t). n \<noteq> c) (fcols right);
            cols = fcols left @ map (\<lambda>(n, t). (right_name left n, t)) rcols
        in if \<not> distinct (map fst cols) then Inl DuplicateError
           else Inr \<lparr>fcols = cols,
                     frows = concat (map (\<lambda>l.
                       (case matches right c l of
                          [] \<Rightarrow> [join_row left rcols l (\<lambda>n. None)]
                        | ms \<Rightarrow> map (join_row left rcols l) ms))
                       (frows left))\<rparr>)"

subsection \<open>The merge\<close>

definition basic_standardize :: "frame \<Rightarrow> error + frame" where
  "basic_standardize df =
     (if is_empty df then Inr df
      else (case rename_cols (\<lambda>c. lower (strip c)) df of
              Inl e \<Rightarrow> Inl e
            | Inr d \<Rightarrow> Inr (d\<lparr>frows := uniq_by (\<lambda>r. map r (names d)) [] (frows d)\<rparr>)))"

text \<open>
  \<open>aggregate_many_to_one\<close>: the groups of \<open>id_col\<close> in the order of their first row
  (null is a group of its own). \<open>text_cols\<close> are the first five columns of dtype
  \<open>Utf8\<close> other than \<open>id_col\<close>; \<open>text_values\<close> are the non-null strings of a column in
  some rows, and \<open>sort (remdups ..)\<close> of them is \<open>unique().sort()\<close>. \<open>members\<close> are the
  rows of a group. polars raises on two output columns of one name.
\<close>

definition text_cols :: "frame \<Rightarrow> string \<Rightarrow> string list" where
  "text_cols df id_col =
     take 5 (map fst (filter (\<lambda>(c, t). c \<noteq> id_col \<and> t = PlUtf8) (fcols df)))"

definition text_values :: "prow list \<Rightarrow> string \<Rightarrow> string list" where
  "text_values rows c = concat (map (\<lambda>r. case r c of Some (PStr s) \<Rightarrow> [s] | _ \<Rightarrow> []) rows)"

definition members :: "frame \<Rightarrow> string \<Rightarrow> pval option \<Rightarrow> prow list" where
  "members df id_col v = filter (\<lambda>r. r id_col = v) (frows df)"

definition count_name :: "string \<Rightarrow> string" where
  "count_name prefix = prefix @ ''_count''"

definition list_name :: "string \<Rightarrow> string \<Rightarrow> string" where
  "list_name prefix c = prefix @ ''_'' @ c @ ''_list''"

definition agg_cols :: "frame \<Rightarrow> string \<Rightarrow> string \<Rightarrow> (string \<times> pl_dtype) list" where
  "agg_cols df id_col prefix =
     (id_col, case map_of (fcols df) id_col of None \<Rightarrow> PlUtf8 | Some t \<Rightarrow> t)
       # (count_name prefix, PlUInt32)
       # map (\<lambda>c. (list_name prefix c, PlListUtf8)) (text_cols df id_col)"

definition agg_row :: "frame \<Rightarrow> string \<Rightarrow> string \<Rightarrow> pval option \<Rightarrow> prow" where
  "agg_row df id_col prefix v =
     record_row ((id_col, v)
       # (count_name prefix, Some (PInt (int (length (members df id_col v)))))
       # map (\<lambda>c. (list_name prefix c,
                    Some (PList (sort (remdups (text_values (members df id_col v) c))))))
            (text_cols df id_col))"

definition aggregate_many_to_one :: "frame \<Rightarrow> string \<Rightarrow> string \<Rightarrow> error + frame" where
  "aggregate_many_to_one df id_col prefix =
     (if is_empty df then Inr df
      else if id_col \<notin> set (names df) then Inl ColumnNotFoundError
      else if \<not> distinct (map fst (agg_cols df id_col prefix)) then Inl DuplicateError
      else Inr \<lparr>fcols = agg_cols df id_col prefix,
                frows = map (agg_row df id_col prefix)
                          (map (\<lambda>r. r id_col) (uniq_by (\<lambda>r. r id_col) [] (frows df)))\<rparr>)"

text \<open>\<open>_ensure_id\<close>: the first column that is the id but for its case takes its name.\<close>

definition ensure_id :: "string \<Rightarrow> frame \<Rightarrow> error + frame" where
  "ensure_id id_lower df =
     (if is_empty df \<or> id_lower \<in> set (names df) then Inr df
      else (case filter (\<lambda>c. lower c = id_lower) (names df) of
              [] \<Rightarrow> Inr df
            | c # cs \<Rightarrow> rename_cols (\<lambda>x. if x = c then id_lower else x) df))"

text \<open>The aggregate of a related dataset, or \<open>pl.DataFrame()\<close> when it has no rows or no id.\<close>

definition related_agg :: "frame \<Rightarrow> string \<Rightarrow> string \<Rightarrow> error + frame" where
  "related_agg df id_lower prefix =
     (if \<not> is_empty df \<and> id_lower \<in> set (names df) then aggregate_many_to_one df id_lower prefix
      else Inr empty_frame)"

definition attach :: "frame \<Rightarrow> frame \<Rightarrow> string \<Rightarrow> error + frame" where
  "attach out agg id_lower = (if \<not> is_empty agg then join_left out agg id_lower else Inr out)"

text \<open>The merge from the three datasets standardized and with their id resolved.\<close>

definition merge_prepared :: "frame \<Rightarrow> frame \<Rightarrow> frame \<Rightarrow> string \<Rightarrow> error + frame" where
  "merge_prepared crashes vehicles people id_lower =
     (if \<not> is_empty crashes \<and> id_lower \<notin> set (names crashes) then Inr crashes
      else
        (case related_agg vehicles id_lower ''veh'' of
           Inl e \<Rightarrow> Inl e
         | Inr veh_agg \<Rightarrow>
             (case related_agg people id_lower ''ppl'' of
                Inl e \<Rightarrow> Inl e
              | Inr ppl_agg \<Rightarrow>
                  (case attach crashes veh_agg id_lower of
                     Inl e \<Rightarrow> Inl e
                   | Inr out1 \<Rightarrow>
                       (case attach out1 ppl_agg id_lower of
                          Inl e \<Rightarrow> Inl e
                        | Inr out2 \<Rightarrow> unique_subset id_lower out2)))))"

definition merge_crash_vehicles_people :: "frame \<Rightarrow> frame \<Rightarrow> frame \<Rightarrow> string \<Rightarrow> error + frame" where
  "merge_crash_vehicles_people crashes vehicles people id_col =
     (case basic_standardize crashes of
        Inl e \<Rightarrow> Inl e
      | Inr c0 \<Rightarrow>
     (case basic_standardize vehicles of
        Inl e \<Rightarrow> Inl e
      | Inr v0 \<Rightarrow>
     (case basic_standardize people of
        Inl e \<Rightarrow> Inl e
      | Inr p0 \<Rightarrow>
     (case ensure_id (lower id_col) c0 of
        Inl e \<Rightarrow> Inl e
      | Inr c \<Rightarrow>
     (case ensure_id (lower id_col) v0 of
        Inl e \<Rightarrow> Inl e
      | Inr v \<Rightarrow>
     (case ensure_id (lower id_col) p0 of
        Inl e \<Rightarrow> Inl e
      | Inr p \<Rightarrow> merge_prepared c v p (lower id_col)))))))"


subsection \<open>Example datasets\<close>

definition ex_crashes :: frame where
  "ex_crashes = \<lparr>fcols = [(''CRASH_RECORD_ID'', PlUtf8), (''weather'', PlUtf8)],
       frows = [record_row [(''CRASH_RECORD_ID'', Some (PStr ''C1'')), (''weather'', Some (PStr ''RAIN''))],
                record_row [(''CRASH_RECORD_ID'', Some (PStr ''C2'')), (''weather'', None)]]\<rparr>"

definition ex_vehicles :: frame where
  "ex_vehicles = \<lparr>fcols = [(''crash_record_id'', PlUtf8), (''vehicle_id'', PlInt64), (''make'', PlUtf8)],
       frows = [record_row [(''crash_record_id'', Some (PStr ''C1'')), (''vehicle_id'', Some (PInt 1)), (''make'', Some (PStr ''FORD''))],
                record_row [(''crash_record_id'', Some (PStr ''C1'')), (''vehicle_id'', Some (PInt 2)), (''make'', Some (PStr ''BMW''))],
                record_row [(''crash_record_id'', Some (PStr ''C1'')), (''vehicle_id'', Some (PInt 3)), (''make'', Some (PStr ''FORD''))]]\<rparr>"

subsection \<open>Notions used in the statements\<close>



section \<open>Properties of the Normalizer\<close>

lemmas str_eval = strip_def is_space_def lower_def lower_char_def

lemmas vocab_eval = vocab_lookup_def YES_NO_TRUE_FALSE_def str_eval

lemma vocab_range: "vocab_lookup c = Some i \<Longrightarrow> i = 0 \<or> i = 1"
  by (auto simp: vocab_lookup_def YES_NO_TRUE_FALSE_def split: option.splits if_splits)

lemma dropna_set: "set (dropna xs) = {x. Some x \<in> set xs}"
  by (induction xs) (auto simp: dropna_def split: option.splits)

text \<open>
  What \<open>_map_yes_no_to_int\<close> decides: the column becomes \<open>Int8\<close> as soon as one cell
  is in the vocabulary, and every cell outside it becomes a missing value.
\<close>

lemma map_yes_no_to_int_cases:
  "map_yes_no_to_int cells =
     (if \<exists>c \<in> set cells. vocab_lookup c \<noteq> None then IntNA 8 (map vocab_lookup cells)
      else Text cells)"
proof -
  have r: "set (dropna (map vocab_lookup cells)) \<subseteq> {0, 1}"
  proof
    fix i assume "i \<in> set (dropna (map vocab_lookup cells))"
    then obtain c where "vocab_lookup c = Some i" by (auto simp: dropna_set)
    then show "i \<in> {0, 1}" using vocab_range by blast
  qed
  have "dropna (map vocab_lookup cells) \<noteq> [] \<longleftrightarrow> (\<exists>c \<in> set cells. vocab_lookup c \<noteq> None)"
  proof -
    have "dropna (map vocab_lookup cells) \<noteq> [] \<longleftrightarrow> set (dropna (map vocab_lookup cells)) \<noteq> {}"
      by simp
    also have "\<dots> \<longleftrightarrow> (\<exists>c \<in> set cells. vocab_lookup c \<noteq> None)"
      by (simp add: dropna_set set_eq_iff image_iff) (metis not_Some_eq)
    finally show ?thesis .
  qed
  with r show ?thesis by (simp add: map_yes_no_to_int_def Let_def)
qed

lemma map_yes_no_all_vocabulary:
  "map_yes_no_to_int [Some ''Y'', Some ''n'', Some ''yes'', Some ''NO'']
     = IntNA 8 [Some 1, Some 0, Some 1, Some 0]"
  by (simp add: map_yes_no_to_int_def dropna_def vocab_eval)

text \<open>
  Claim C3. The column \<open>["Y", "unknown"]\<close> is not left as text: \<open>_map_yes_no_to_int\<close>
  returns the \<open>Int8\<close> column \<open>[1, <NA>]\<close>, and \<open>_convert_yes_no\<close> stores it and lists the
  column as boolean-like. The value outside the vocabulary is replaced by a missing
  value.
\<close>

theorem convert_yes_no_partial_vocabulary:
  "map_yes_no_to_int [Some ''Y'', Some ''unknown''] = IntNA 8 [Some 1, None]
   \<and> convert_yes_no [(''flag'', Text [Some ''Y'', Some ''unknown''])]
       = ([(''flag'', IntNA 8 [Some 1, None])], [''flag''])"
  by (simp add: map_yes_no_to_int_def dropna_def vocab_eval)

text \<open>
  Claim C2. Two rows whose keys differ only by white space pass the de-duplication,
  which runs before the keys are trimmed, and leave \<open>apply_cleaning\<close> with the same
  key \<open>X1\<close>, whatever the library functions are.
\<close>

theorem apply_cleaning_duplicate_pk:
  "apply_cleaning lib [(''crash_record_id'', Text [Some ''X1'', Some '' X1''])]
     = Inr [(''crash_record_id'', Text [Some ''X1'', Some ''X1''])]"
  by (simp add: apply_cleaning_def ensure_pk_def columns_def drop_duplicates_last_def
        select_rows_def pick_def coerce_numeric_def NUMERIC_COLS_def normalize_text_def ID_COLS_def
        map_yes_no_to_int_def dropna_def vocab_eval split_crash_datetime_def DATE_COL_def
        impute_missing_def impute_text_cols_def pk_hygiene_def pk_mask_def project_def KEEP_COLS_def
        CATEGORICAL_COLS_def DERIVED_DATE_COLS_def)

lemma impute_float_example:
  "impute_missing [(''lane_cnt'', Float64 [Some 10, Some 20, None])] []
     = Inr [(''lane_cnt'', Float64 [Some 10, Some 20, Some 15])]"
  by (simp add: impute_missing_def median_def dropna_def fill_def impute_text_cols_def)

lemma impute_all_null_example:
  "impute_missing [(''lane_cnt'', Float64 [None, None])] []
     = Inr [(''lane_cnt'', Float64 [Some 0, Some 0])]"
  by (simp add: impute_missing_def median_def dropna_def fill_def impute_text_cols_def)

lemma impute_text_and_bool_example:
  "impute_missing [(''make'', Text [Some ''ford'', None]), (''person_id'', Text [None]),
                   (''hit_and_run'', IntNA 8 [Some 1, None])] [''hit_and_run'']
     = Inr [(''make'', Text [Some ''ford'', Some ''missing'']), (''person_id'', Text [None]),
            (''hit_and_run'', IntNA 8 [Some 1, None])]"
  by (simp add: impute_missing_def fill_def impute_text_cols_def ID_COLS_def)

text \<open>
  Claim C9. A numeric column of a nullable integer dtype that is not boolean-like, such
  as the derived \<open>crash_year\<close>, is not filled when its median is not an integer:
  for \<open>[2020, 2021, <NA>]\<close> the median is 2020.5, \<open>fillna\<close> raises \<open>TypeError\<close> and
  \<open>_impute_missing\<close> returns no frame.
\<close>

theorem impute_missing_fractional_median:
  "impute_missing [(''crash_year'', IntNA 16 [Some 2020, Some 2021, None])] [] = Inl TypeError"
  by code_simp

section \<open>Properties of the Merger\<close>

subsection \<open>Rows kept by \<open>unique\<close>\<close>





subsection \<open>Empty datasets\<close>

lemma basic_standardize_empty: "is_empty df \<Longrightarrow> basic_standardize df = Inr df"
  by (simp add: basic_standardize_def)

lemma ensure_id_empty: "is_empty df \<Longrightarrow> ensure_id i df = Inr df"
  by (simp add: ensure_id_def)

lemma join_left_empty: "is_empty left \<Longrightarrow> join_left left right c = Inr out \<Longrightarrow> is_empty out"
  by (auto simp: join_left_def is_empty_def Let_def split: if_splits)

lemma attach_empty: "is_empty left \<Longrightarrow> attach left agg c = Inr out \<Longrightarrow> is_empty out"
  by (auto simp: attach_def dest: join_left_empty split: if_splits)

lemma unique_subset_empty: "is_empty df \<Longrightarrow> unique_subset c df = Inr out \<Longrightarrow> is_empty out"
  by (auto simp: unique_subset_def is_empty_def split: if_splits)

lemma merge_prepared_empty:
  assumes "is_empty c" and "merge_prepared c v p i = Inr out"
  shows "is_empty out"
proof -
  from assms obtain va pa o1 o2 where
    "attach c va i = Inr o1" and "attach o1 pa i = Inr o2" and "unique_subset i o2 = Inr out"
    by (auto simp: merge_prepared_def split: if_splits sum.splits)
  with assms(1) show ?thesis
    by (blast dest: attach_empty unique_subset_empty)
qed

text \<open>
  When the crash dataset has no rows and the merge returns, the result has no rows.
\<close>

lemma merge_empty_primary:
  assumes "is_empty crashes"
      and "merge_crash_vehicles_people crashes vehicles people id_col = Inr out"
  shows "is_empty out"
proof -
  from assms obtain v p where "merge_prepared crashes v p (lower id_col) = Inr out"
    by (auto simp: merge_crash_vehicles_people_def basic_standardize_empty ensure_id_empty
             split: sum.splits)
  with assms(1) show ?thesis by (rule merge_prepared_empty)
qed

lemma merge_no_crashes_eval:
  "(case merge_crash_vehicles_people empty_frame ex_vehicles empty_frame ''crash_record_id'' of
      Inl e \<Rightarrow> e = ColumnNotFoundError
    | Inr out \<Rightarrow> False)"
  by code_simp

text \<open>
  Claim C5 says that the merge never raises for any combination of empty and
  non-empty crash, vehicles and people datasets. It raises when the crash dataset is
  \<open>pl.DataFrame()\<close> and the vehicles have rows with the id: the vehicles are
  aggregated, the aggregate is not empty, and the left join of the crash frame, which
  has no column, on the id raises \<open>ColumnNotFoundError\<close>.
\<close>

theorem merge_raises_without_crashes:
  "merge_crash_vehicles_people empty_frame ex_vehicles empty_frame ''crash_record_id''
     = Inl ColumnNotFoundError"
  using merge_no_crashes_eval
  by (cases "merge_crash_vehicles_people empty_frame ex_vehicles empty_frame ''crash_record_id''")
     simp_all

lemma merge_example_eval:
  "(case merge_crash_vehicles_people ex_crashes ex_vehicles empty_frame ''crash_record_id'' of
      Inl e \<Rightarrow> False
    | Inr out \<Rightarrow>
        names out = [''crash_record_id'', ''weather'', ''veh_count'', ''veh_make_list''] \<and>
        frame_cells out =
          [[Some (PStr ''C1''), Some (PStr ''RAIN''), Some (PInt 3), Some (PList [''BMW'', ''FORD''])],
           [Some (PStr ''C2''), None, None, None]])"
  by code_simp

subsection \<open>The aggregate of a related dataset\<close>






lemma agg_row_keys:
  "map fst ((i, v) # (count_name pre, x) # map (\<lambda>c. (list_name pre c, g c)) cs)
   = i # count_name pre # map (list_name pre) cs"
  by (simp add: comp_def)







subsection \<open>The left join with an aggregate\<close>








subsection \<open>The merged rows\<close>















section \<open>Properties of the stage orchestrators\<close>

lemma on_msg_never_requeues: "on_msg env_bucket job body \<noteq> Nack True"
  by (auto simp: on_msg_def Let_def split: option.splits json.splits sum.splits)

lemma handle_never_requeues: "handle repr job header body \<noteq> Nack True"
  by (auto simp: handle_def split: option.splits sum.splits)

text \<open>
  Claim C6, as stated, fails at the transformer: a message of an unrecognized type is
  acknowledged, whatever the job would have done with it.
\<close>

theorem on_msg_acks_unknown_type:
  "on_msg None (\<lambda>msg. Inl OtherError)
     (Some (JObj [(''type'', JStr ''resize''), (''corr_id'', JStr ''abc123'')])) = Ack"
  by (simp add: on_msg_def)

text \<open>
  Claim C6, as amended. The transformer rejects without requeue a body that does not
  parse or is no object, and a message of a recognized type whose correlation id is
  missing or empty; it acknowledges a message of any other type. The cleaner rejects
  without requeue a message from which no correlation id can be read (no header, and a
  body that does not parse or is no object) and one whose correlation id is the empty
  string; it does not look at the type. Neither callback ever requeues.
\<close>

theorem invalid_messages_are_dropped:
  "on_msg env_bucket tjob None = Nack False
   \<and> ((\<forall>msg. v \<noteq> JObj msg) \<longrightarrow> on_msg env_bucket tjob (Some v) = Nack False)
   \<and> ((map_of msg ''type'' = Some (JStr ''transform'') \<or> map_of msg ''type'' = Some (JStr ''clean''))
        \<and> \<not> truthy (dict_get msg ''corr_id'')
        \<longrightarrow> on_msg env_bucket tjob (Some (JObj msg)) = Nack False)
   \<and> (map_of msg ''type'' \<noteq> Some (JStr ''transform'') \<and> map_of msg ''type'' \<noteq> Some (JStr ''clean'')
        \<longrightarrow> on_msg env_bucket tjob (Some (JObj msg)) = Ack)
   \<and> on_msg env_bucket tjob body \<noteq> Nack True
   \<and> ((\<forall>payload. body \<noteq> Some (JObj payload)) \<longrightarrow> handle repr cjob None body = Nack False)
   \<and> (get_corr_id_from_message repr header body = Some [] \<longrightarrow> handle repr cjob header body = Nack False)
   \<and> handle repr cjob header body \<noteq> Nack True"
proof (intro conjI impI)
  show "on_msg env_bucket tjob None = Nack False" by (simp add: on_msg_def)
  show "on_msg env_bucket tjob (Some v) = Nack False" if "\<forall>msg. v \<noteq> JObj msg"
    using that by (cases v) (simp_all add: on_msg_def)
  show "on_msg env_bucket tjob (Some (JObj msg)) = Nack False"
    if "(map_of msg ''type'' = Some (JStr ''transform'') \<or> map_of msg ''type'' = Some (JStr ''clean''))
        \<and> \<not> truthy (dict_get msg ''corr_id'')"
    using that by (auto simp: on_msg_def run_transform_job_def Let_def)
  show "on_msg env_bucket tjob (Some (JObj msg)) = Ack"
    if "map_of msg ''type'' \<noteq> Some (JStr ''transform'') \<and> map_of msg ''type'' \<noteq> Some (JStr ''clean'')"
    using that by (auto simp: on_msg_def Let_def split: option.splits)
  show "on_msg env_bucket tjob body \<noteq> Nack True" by (rule on_msg_never_requeues)
  show "handle repr cjob None body = Nack False" if "\<forall>payload. body \<noteq> Some (JObj payload)"
  proof (cases body)
    case None
    then show ?thesis by (simp add: handle_def get_corr_id_from_message_def)
  next
    case (Some v)
    with that show ?thesis
      by (cases v) (simp_all add: handle_def get_corr_id_from_message_def)
  qed
  show "handle repr cjob header body = Nack False"
    if "get_corr_id_from_message repr header body = Some []"
    using that by (simp add: handle_def)
  show "handle repr cjob header body \<noteq> Nack True" by (rule handle_never_requeues)
qed

theorem invalid_messages_are_dropped_witness:
  "on_msg None (\<lambda>m. Inr ()) (Some (JArr [])) = Nack False
   \<and> on_msg None (\<lambda>m. Inr ()) (Some (JObj [(''type'', JStr ''transform''), (''xform_bucket'', JStr ''silver'')])) = Nack False
   \<and> on_msg None (\<lambda>m. Inr ()) (Some (JObj [(''type'', JStr ''resize''), (''corr_id'', JStr ''abc123'')])) = Ack
   \<and> handle (\<lambda>v. ''[]'') (\<lambda>c. Inr ()) None (Some (JArr [])) = Nack False
   \<and> handle (\<lambda>v. ''[]'') (\<lambda>c. Inr ()) (Some (JStr [])) (Some (JArr [])) = Nack False"
proof -
  let ?m1 = "[(''type'', JStr ''transform''), (''xform_bucket'', JStr ''silver'')]"
  let ?m2 = "[(''type'', JStr ''resize''), (''corr_id'', JStr ''abc123'')]"
  have h1: "\<forall>msg. JArr [] \<noteq> JObj msg" by simp
  have h2: "(map_of ?m1 ''type'' = Some (JStr ''transform'') \<or> map_of ?m1 ''type'' = Some (JStr ''clean''))
        \<and> \<not> truthy (dict_get ?m1 ''corr_id'')" by (simp add: dict_get_def)
  have h3: "map_of ?m2 ''type'' \<noteq> Some (JStr ''transform'') \<and> map_of ?m2 ''type'' \<noteq> Some (JStr ''clean'')"
    by simp
  have h4: "\<forall>payload. Some (JArr []) \<noteq> Some (JObj payload)" by simp
  have h5: "get_corr_id_from_message (\<lambda>v. ''[]'') (Some (JStr [])) (Some (JArr [])) = Some []"
    by (simp add: get_corr_id_from_message_def)
  note a = invalid_messages_are_dropped[where env_bucket = None and tjob = "\<lambda>m. Inr ()" and v = "JArr []"
      and msg = ?m1 and body = "Some (JArr [])" and repr = "\<lambda>v. ''[]''" and cjob = "\<lambda>c. Inr ()"
      and header = "Some (JStr [])"]
  note b = invalid_messages_are_dropped[where env_bucket = None and tjob = "\<lambda>m. Inr ()" and v = "JArr []"
      and msg = ?m2 and body = "Some (JArr [])" and repr = "\<lambda>v. ''[]''" and cjob = "\<lambda>c. Inr ()"
      and header = "Some (JStr [])"]
  from a h1 have c1: "on_msg None (\<lambda>m. Inr ()) (Some (JArr [])) = Nack False" by blast
  from a h2 have c2: "on_msg None (\<lambda>m. Inr ()) (Some (JObj ?m1)) = Nack False" by blast
  from b h3 have c3: "on_msg None (\<lambda>m. Inr ()) (Some (JObj ?m2)) = Ack" by blast
  from a h4 have c4: "handle (\<lambda>v. ''[]'') (\<lambda>c. Inr ()) None (Some (JArr [])) = Nack False" by blast
  from a h5 have c5: "handle (\<lambda>v. ''[]'') (\<lambda>c. Inr ()) (Some (JStr [])) (Some (JArr [])) = Nack False" by blast
  from c1 c2 c3 c4 c5 show ?thesis by blast
qed


section \<open>Properties of the Upsert Store\<close>

lemma add_column_cols:
  "add_column t c ty d = Inr d' \<Longrightarrow> d t = Some T \<Longrightarrow>
   \<exists>T'. d' t = Some T' \<and> tcols T' = tcols T @ [(c, ty, False)] \<and> tpk T' = tpk T
      \<and> trows T' = map (\<lambda>r. r(c := None)) (trows T) \<and> c \<notin> set (col_names T)"
  by (auto simp: add_column_def split: if_splits)

lemma add_columns_cols:
  "add_columns t tys cs d = (res, d') \<Longrightarrow> d t = Some T \<Longrightarrow>
   \<exists>T' dn. d' t = Some T' \<and> tpk T' = tpk T
     \<and> tcols T' = tcols T @ map (\<lambda>c. (c, (case map_of tys c of None \<Rightarrow> ''TEXT'' | Some ty \<Rightarrow> ty), False)) dn
     \<and> trows T' = map (\<lambda>r. (\<lambda>c. if c \<in> set dn then None else r c)) (trows T)
     \<and> set dn \<subseteq> set cs \<and> set dn \<inter> set (col_names T) = {}
     \<and> (\<forall>u. res = Inr u \<longrightarrow> dn = cs)"
proof (induction cs arbitrary: d T)
  case Nil
  then show ?case by (intro exI[of _ T] exI[of _ "[]"]) auto
next
  case (Cons c cs)
  show ?case
  proof (cases "add_column t c (case map_of tys c of None \<Rightarrow> ''TEXT'' | Some ty \<Rightarrow> ty) d")
    case (Inl e)
    with Cons.prems show ?thesis by (intro exI[of _ T] exI[of _ "[]"]) auto
  next
    case (Inr d1)
    from add_column_cols[OF Inr Cons.prems(2)] obtain T1 where
      T1: "d1 t = Some T1" "tcols T1 = tcols T @ [(c, (case map_of tys c of None \<Rightarrow> ''TEXT'' | Some ty \<Rightarrow> ty), False)]"
        "tpk T1 = tpk T" "trows T1 = map (\<lambda>r. r(c := None)) (trows T)" "c \<notin> set (col_names T)" by blast
    from Cons.prems Inr have "add_columns t tys cs d1 = (res, d')" by simp
    from Cons.IH[OF this T1(1)] obtain T' dn where
      T': "d' t = Some T'" "tpk T' = tpk T1"
        "tcols T' = tcols T1 @ map (\<lambda>c. (c, (case map_of tys c of None \<Rightarrow> ''TEXT'' | Some ty \<Rightarrow> ty), False)) dn"
        "trows T' = map (\<lambda>r. (\<lambda>c. if c \<in> set dn then None else r c)) (trows T1)"
        "set dn \<subseteq> set cs" "set dn \<inter> set (col_names T1) = {}" "\<forall>u. res = Inr u \<longrightarrow> dn = cs" by blast
    have rows: "trows T' = map (\<lambda>r. (\<lambda>x. if x \<in> set (c # dn) then None else r x)) (trows T)"
      unfolding T'(4) T1(4) by (auto simp: fun_eq_iff)
    show ?thesis
      apply (intro exI[of _ T'] exI[of _ "c # dn"])
      using T' T1 rows by (auto simp: col_names_def)
  qed
qed

lemma create_table_as_same:
  "d t = Some T \<Longrightarrow> create_table_as t df d = d"
  by (simp add: create_table_as_def)

lemma ensure_table_cols:
  assumes "ensure_table t df pk d = (res, d1)" and "d t = Some T"
  shows "\<exists>T1. d1 t = Some T1 \<and> tcols T1 = tcols T \<and> trows T1 = trows T
           \<and> (tpk T1 = tpk T \<or> tpk T1 = Some pk)"
  using assms
  by (auto simp: ensure_table_def create_table_as_same add_primary_key_def Let_def
           split: if_splits sum.splits)

lemma blank_Nil [simp]: "blank [] = (\<lambda>r. r)"
  by (simp add: blank_def fun_eq_iff)

lemma evolve_schema_cols:
  assumes "evolve_schema t df d = (res, d')" and "d t = Some T"
  shows "\<exists>T' dn. d' t = Some T' \<and> tpk T' = tpk T
     \<and> tcols T' = tcols T @ map (\<lambda>c. (c, (case map_of (infer_df_types df) c of None \<Rightarrow> ''TEXT'' | Some ty \<Rightarrow> ty), False)) dn
     \<and> trows T' = map (blank dn) (trows T)
     \<and> set dn \<subseteq> set (needed_cols T df)
     \<and> (\<forall>u. res = Inr u \<longrightarrow> dn = needed_cols T df)"
proof (cases "needed_cols T df = []")
  case True
  with assms have "d' = d" by (simp add: evolve_schema_def)
  with assms True show ?thesis
    by (intro exI[of _ T] exI[of _ "[]"]) (simp add: blank_def)
next
  case False
  with assms have "add_columns t (infer_df_types df) (needed_cols T df) d = (res, d')"
    by (simp add: evolve_schema_def)
  from add_columns_cols[OF this assms(2)] show ?thesis
    unfolding blank_def by blast
qed

lemma put_row_keeps:
  "r \<in> set rows \<Longrightarrow> r k \<noteq> new k \<Longrightarrow> r \<in> set (put_row now k as rows new)"
  by (auto simp: put_row_def)

lemma foldl_put_row_keeps:
  "r \<in> set rows \<Longrightarrow> r k \<notin> (\<lambda>n. n k) ` set news \<Longrightarrow>
   r \<in> set (foldl (put_row now k as) rows news)"
proof (induction news arbitrary: rows)
  case Nil
  then show ?case by simp
next
  case (Cons n news)
  then have "r \<in> set (put_row now k as rows n)" by (intro put_row_keeps) auto
  with Cons show ?case by simp
qed

lemma insert_on_conflict_result:
  assumes "insert_on_conflict now t cols src k as d = Inr d'" and "d t = Some T"
  shows "d' = d(t \<mapsto> T\<lparr>trows := foldl (put_row now k as) (trows T) (map (proposed T now cols) src)\<rparr>)
         \<and> set cols \<subseteq> set (col_names T) \<and> tpk T = Some k
         \<and> None \<notin> (\<lambda>s. proposed T now cols s k) ` set src"
  using assms
  by (auto simp: insert_on_conflict_def Let_def comp_def split: if_splits)

lemma upsert_cols_pk: "pk \<in> set (upsert_cols T df pk)"
  by (simp add: upsert_cols_def Let_def)

lemma upsert_rows_result:
  assumes "upsert_rows now t df pk d = (res, d')" and "d t = Some T"
  shows "\<exists>T'. d' t = Some T' \<and> tcols T' = tcols T \<and> tpk T' = tpk T
          \<and> (\<forall>r \<in> set (trows T). r pk = None \<or> r pk \<notin> (\<lambda>s. s pk) ` set (df_rows df) \<longrightarrow> r \<in> set (trows T'))"
proof (cases "insert_on_conflict now t (upsert_cols T df pk) (df_rows df) pk (update_set (upsert_cols T df pk) pk) d")
  case (Inl e)
  with assms have "d' = d"
    by (simp add: upsert_rows_def)
  with assms show ?thesis by auto
next
  case (Inr d1)
  let ?news = "map (proposed T now (upsert_cols T df pk)) (df_rows df)"
  let ?as = "update_set (upsert_cols T df pk) pk"
  from insert_on_conflict_result[OF Inr assms(2)]
  have d1: "d1 = d(t \<mapsto> T\<lparr>trows := foldl (put_row now pk ?as) (trows T) ?news\<rparr>)"
    and nn: "None \<notin> (\<lambda>s. proposed T now (upsert_cols T df pk) s pk) ` set (df_rows df)"
    by simp_all
  from assms Inr d1 have d': "d' = d1"
    by (simp add: upsert_rows_def)
  have keys: "(\<lambda>n. n pk) ` set ?news = (\<lambda>s. s pk) ` set (df_rows df)"
    using upsert_cols_pk[of pk T df] by (auto simp: proposed_def image_iff)
  have "r \<in> set (foldl (put_row now pk ?as) (trows T) ?news)"
    if "r \<in> set (trows T)" "r pk = None \<or> r pk \<notin> (\<lambda>s. s pk) ` set (df_rows df)" for r
  proof -
    from nn keys have "None \<notin> (\<lambda>n. n pk) ` set ?news" by (auto simp: image_iff)
    with that keys have "r pk \<notin> (\<lambda>n. n pk) ` set ?news" by auto
    with that show ?thesis by (intro foldl_put_row_keeps)
  qed
  with d' d1 show ?thesis by auto
qed

lemma blank_pk: "blank cs r pk = None \<or> blank cs r pk = r pk"
  by (simp add: blank_def)

text \<open>
  Claim C7. An \<open>upsert\<close> into an existing table never alters or removes a column: the
  column list after the call is the list before it followed by added columns, whether
  the call returns or raises, so the column set only grows from call to call. The
  added columns are columns of the batch that the table did not have, and when a batch
  with rows is upserted and the call returns they are exactly those columns, in the
  batch's order. A row stored before the call whose key the batch does not carry is
  stored after it, unchanged in the old columns and \<open>NULL\<close> in the added ones.
\<close>

theorem upsert_schema_growth:
  assumes "d t = Some T" and "upsert d now t df pk = (res, d')"
  shows "\<exists>T' added. d' t = Some T'
           \<and> tcols T' = tcols T @ added
           \<and> set (map fst added) \<subseteq> set (needed_cols T df)
           \<and> (\<not> df_empty df \<and> (\<exists>n. res = Inr n) \<longrightarrow> map fst added = needed_cols T df)
           \<and> (\<forall>r \<in> set (trows T). r pk \<notin> (\<lambda>s. s pk) ` set (df_rows df) \<longrightarrow>
                  blank (map fst added) r \<in> set (trows T'))"
proof (cases "df_empty df \<or> pk \<notin> set (columns df)")
  case True
  with assms have "d' = d" "\<not> df_empty df \<longrightarrow> res = Inl ValueError"
    by (auto simp: upsert_def split: if_splits)
  with assms(1) show ?thesis
    by (intro exI[of _ T] exI[of _ "[]"]) auto
next
  case False
  obtain r1 d1 where e1: "ensure_table t df pk d = (r1, d1)" by (cases "ensure_table t df pk d")
  from ensure_table_cols[OF e1 assms(1)] obtain T1 where
    T1: "d1 t = Some T1" "tcols T1 = tcols T" "trows T1 = trows T" by blast
  then have nc: "needed_cols T1 df = needed_cols T df"
    by (simp add: needed_cols_def col_names_def)
  show ?thesis
  proof (cases r1)
    case (Inl e)
    with assms(2) False e1 have "d' = d1" "res = Inl e" by (auto simp: upsert_def)
    with T1 show ?thesis by (intro exI[of _ T1] exI[of _ "[]"]) auto
  next
    case (Inr u1)
    obtain r2 d2 where e2: "evolve_schema t df d1 = (r2, d2)" by (cases "evolve_schema t df d1")
    from evolve_schema_cols[OF e2 T1(1)] obtain T2 dn where
      T2: "d2 t = Some T2"
        "tcols T2 = tcols T1 @ map (\<lambda>c. (c, (case map_of (infer_df_types df) c of None \<Rightarrow> ''TEXT'' | Some ty \<Rightarrow> ty), False)) dn"
        "trows T2 = map (blank dn) (trows T1)"
        "set dn \<subseteq> set (needed_cols T1 df)"
        "\<forall>u. r2 = Inr u \<longrightarrow> dn = needed_cols T1 df" by blast
    let ?added = "map (\<lambda>c. (c, (case map_of (infer_df_types df) c of None \<Rightarrow> ''TEXT'' | Some ty \<Rightarrow> ty), False)) dn"
    have fst_added: "map fst ?added = dn" by (simp add: comp_def)
    show ?thesis
    proof (cases r2)
      case (Inl e)
      with assms(2) False e1 e2 Inr have "d' = d2" "res = Inl e" by (auto simp: upsert_def)
      with T1 T2 nc fst_added show ?thesis
        by (intro exI[of _ T2] exI[of _ ?added]) auto
    next
      case (Inr u2)
      with assms(2) False e1 e2 \<open>r1 = Inr u1\<close> have e3: "upsert_rows now t df pk d2 = (res, d')"
        by (auto simp: upsert_def)
      from upsert_rows_result[OF e3 T2(1)] obtain T3 where
        T3: "d' t = Some T3" "tcols T3 = tcols T2"
          "\<forall>r \<in> set (trows T2). r pk = None \<or> r pk \<notin> (\<lambda>s. s pk) ` set (df_rows df) \<longrightarrow> r \<in> set (trows T3)"
        by blast
      have rows: "blank dn r \<in> set (trows T3)"
        if "r \<in> set (trows T)" "r pk \<notin> (\<lambda>s. s pk) ` set (df_rows df)" for r
      proof -
        from that T2(3) T1(3) have "blank dn r \<in> set (trows T2)" by simp
        moreover from that(2) blank_pk[of dn r pk]
        have "blank dn r pk = None \<or> blank dn r pk \<notin> (\<lambda>s. s pk) ` set (df_rows df)" by auto
        ultimately show ?thesis using T3(3) by blast
      qed
      from T2(5) Inr have "dn = needed_cols T df" by (simp add: nc)
      with T1 T2 T3 rows fst_added show ?thesis
        by (intro exI[of _ T3] exI[of _ ?added]) auto
    qed
  qed
qed

lemma ensure_table_exists:
  "ensure_table t df pk d = (res, d1) \<Longrightarrow> \<exists>T1. d1 t = Some T1"
  by (auto simp: ensure_table_def create_table_as_def add_primary_key_def Let_def
           split: if_splits sum.splits option.splits)

lemma proposed_listed: "c \<in> set cols \<Longrightarrow> proposed T now cols s c = s c"
  by (simp add: proposed_def)

lemma upsert_unfold:
  assumes "\<not> df_empty df" and "pk \<in> set (columns df)"
  shows "upsert d now t df pk =
     (case ensure_table t df pk d of
        (Inl e, d1) \<Rightarrow> (Inl e, d1)
      | (Inr u, d1) \<Rightarrow>
          (case evolve_schema t df d1 of
             (Inl e, d2) \<Rightarrow> (Inl e, d2)
           | (Inr u, d2) \<Rightarrow> upsert_rows now t df pk d2))"
  using assms by (simp add: upsert_def)

lemma upsert_steps:
  assumes "upsert d now t df pk = (Inr n, d1)" and ne: "\<not> df_empty df"
  shows "pk \<in> set (columns df) \<and>
    (\<exists>da db. ensure_table t df pk d = (Inr (), da) \<and> evolve_schema t df da = (Inr (), db)
       \<and> upsert_rows now t df pk db = (Inr n, d1))"
proof -
  from assms have pk: "pk \<in> set (columns df)"
    by (auto simp: upsert_def split: if_splits)
  obtain r1 da where e1: "ensure_table t df pk d = (r1, da)" by (cases "ensure_table t df pk d")
  obtain r2 db where e2: "evolve_schema t df da = (r2, db)" by (cases "evolve_schema t df da")
  from assms(1) e1 have r1: "r1 = Inr ()"
    unfolding upsert_unfold[OF ne pk] by (cases r1) auto
  from assms(1) e1 e2 r1 have r2: "r2 = Inr ()"
    unfolding upsert_unfold[OF ne pk] by (cases r2) auto
  from assms(1) e1 e2 r1 r2 have "upsert_rows now t df pk db = (Inr n, d1)"
    unfolding upsert_unfold[OF ne pk] by simp
  with pk e1 e2 r1 r2 show ?thesis by blast
qed

lemma insert_on_conflict_Inr:
  assumes "d t = Some T" and "set cols \<subseteq> set (col_names T)"
    and "set (map fst as) \<subseteq> set (col_names T)" and "tpk T = Some k"
    and "list_all (row_fits T) (map (proposed T now cols) src)"
    and "None \<notin> set (map (\<lambda>r. r k) (map (proposed T now cols) src))"
  shows "insert_on_conflict now t cols src k as d =
         Inr (d(t \<mapsto> T\<lparr>trows := foldl (put_row now k as) (trows T) (map (proposed T now cols) src)\<rparr>))"
  using assms unfolding insert_on_conflict_def Let_def by auto

lemma fun_upd_other_table:
  "l \<noteq> t \<Longrightarrow> (d(l := x)) t = d t" by simp

lemma create_table_as_frame:
  "l \<noteq> t \<Longrightarrow> create_table_as t df (d(l := x)) = (create_table_as t df d)(l := x)"
  by (auto simp: create_table_as_def fun_upd_twist split: option.splits)

lemma add_primary_key_frame:
  "l \<noteq> t \<Longrightarrow> add_primary_key t pk (d(l := x)) = map_sum id (\<lambda>d'. d'(l := x)) (add_primary_key t pk d)"
  by (auto simp: add_primary_key_def fun_upd_twist split: option.splits)

lemma add_column_frame:
  "l \<noteq> t \<Longrightarrow> add_column t c ty (d(l := x)) = map_sum id (\<lambda>d'. d'(l := x)) (add_column t c ty d)"
  by (auto simp: add_column_def fun_upd_twist split: option.splits)

lemma add_columns_frame:
  "l \<noteq> t \<Longrightarrow> add_columns t tys cs (d(l := x)) = map_prod id (\<lambda>d'. d'(l := x)) (add_columns t tys cs d)"
  by (induction cs arbitrary: d) (auto simp: add_column_frame split: sum.splits)

lemma ensure_table_frame:
  "l \<noteq> t \<Longrightarrow> ensure_table t df pk (d(l := x)) = map_prod id (\<lambda>d'. d'(l := x)) (ensure_table t df pk d)"
  by (auto simp: ensure_table_def create_table_as_frame add_primary_key_frame Let_def split: sum.splits)

lemma evolve_schema_frame:
  "l \<noteq> t \<Longrightarrow> evolve_schema t df (d(l := x)) = map_prod id (\<lambda>d'. d'(l := x)) (evolve_schema t df d)"
  by (auto simp: evolve_schema_def add_columns_frame Let_def split: option.splits)

lemma insert_on_conflict_frame:
  "l \<noteq> t \<Longrightarrow> insert_on_conflict now t cols src k as (d(l := x))
     = map_sum id (\<lambda>d'. d'(l := x)) (insert_on_conflict now t cols src k as d)"
  by (auto simp: insert_on_conflict_def fun_upd_twist Let_def split: option.splits)

lemma upsert_rows_frame:
  "l \<noteq> t \<Longrightarrow> upsert_rows now t df pk (d(l := x)) = map_prod id (\<lambda>d'. d'(l := x)) (upsert_rows now t df pk d)"
  by (auto simp: upsert_rows_def insert_on_conflict_frame split: option.splits sum.splits)

lemma upsert_frame:
  "l \<noteq> t \<Longrightarrow> upsert (d(l := x)) now t df pk = map_prod id (\<lambda>d'. d'(l := x)) (upsert d now t df pk)"
  by (auto simp: upsert_def ensure_table_frame evolve_schema_frame upsert_rows_frame split: prod.splits sum.splits)

lemma insert_on_conflict_other:
  "insert_on_conflict now t cols src k as d = Inr d' \<Longrightarrow> l \<noteq> t \<Longrightarrow> d' l = d l"
  by (auto simp: insert_on_conflict_def Let_def split: option.splits if_splits)

lemma upsert_other:
  assumes "upsert d now t df pk = (res, d')" and "l \<noteq> t"
  shows "d' l = d l"
proof -
  have "upsert (d(l := d l)) now t df pk = map_prod id (\<lambda>d'. d'(l := d l)) (upsert d now t df pk)"
    using assms(2) by (rule upsert_frame)
  then have "(res, d') = (res, d'(l := d l))" using assms(1) by simp
  then have "d' = d'(l := d l)" by simp
  then have "d' l = (d'(l := d l)) l" by simp
  then show ?thesis by simp
qed

lemma distinct_count_list:
  "distinct xs \<Longrightarrow> count_list xs x = (if x \<in> set xs then 1 else 0)"
  by (induction xs) auto

lemma assign_other: "k \<notin> set (map fst as) \<Longrightarrow> assign now new as r k = r k"
  by (induction as arbitrary: r) auto

lemma put_row_keys_list:
  assumes "k \<notin> set (map fst as)"
  shows "map (\<lambda>r. r k) (put_row now k as rows new) =
         (if new k \<in> set (map (\<lambda>r. r k) rows) then map (\<lambda>r. r k) rows
          else map (\<lambda>r. r k) rows @ [new k])"
  using assms by (simp add: put_row_def assign_other)

lemma ledger_proposed_key:
  "proposed L now [''corr_id'', ''table_name'', ''row_count''] (ledger_values c t n) ''corr_id'' = Some (VText c)"
  by (simp add: proposed_def ledger_values_def)


lemma ledger_col_names:
  "tcols L = ledger_cols \<Longrightarrow> col_names L = [''corr_id'', ''table_name'', ''row_count'', ''processed_at'']"
  by (simp add: col_names_def ledger_cols_def)

lemma ledger_proposed:
  assumes "tcols L = ledger_cols"
  shows "proposed L now [''corr_id'', ''table_name'', ''row_count''] (ledger_values c t n) ''table_name'' = Some (VText t)"
    and "proposed L now [''corr_id'', ''table_name'', ''row_count''] (ledger_values c t n) ''row_count'' = Some (VInt n)"
    and "proposed L now [''corr_id'', ''table_name'', ''row_count''] (ledger_values c t n) ''processed_at'' = Some (VTime now)"
  using assms by (simp_all add: proposed_def ledger_values_def ledger_cols_def)

lemma ledger_row_fits:
  assumes "tcols L = ledger_cols" and "in_bigint n"
  shows "row_fits L (proposed L now [''corr_id'', ''table_name'', ''row_count''] (ledger_values c t n))"
  using assms
  by (simp add: row_fits_def ledger_proposed ledger_proposed_key ledger_cols_def fits_def int_range_def in_bigint_def)

lemma ledger_row_overflow:
  assumes "tcols L = ledger_cols" and "\<not> in_bigint n"
  shows "\<not> row_fits L (proposed L now [''corr_id'', ''table_name'', ''row_count''] (ledger_values c t n))"
  using assms
  by (simp add: row_fits_def ledger_proposed ledger_proposed_key ledger_cols_def fits_def int_range_def in_bigint_def)

lemma record_run_ready:
  assumes L: "d ''_clean_runs'' = Some L" and cols: "tcols L = ledger_cols"
    and tpk: "tpk L = Some ''corr_id''" and n: "in_bigint n"
  shows "record_run d now c t n =
     (Inr (), d(''_clean_runs'' \<mapsto> L\<lparr>trows := put_row now ''corr_id'' ledger_update (trows L)
         (proposed L now [''corr_id'', ''table_name'', ''row_count''] (ledger_values c t n))\<rparr>))"
proof -
  have b1: "set [''corr_id'', ''table_name'', ''row_count''] \<subseteq> set (col_names L)"
    by (simp add: ledger_col_names[OF cols])
  have b2: "set (map fst ledger_update) \<subseteq> set (col_names L)"
    by (simp add: ledger_col_names[OF cols] ledger_update_def)
  have c0: "list_all (row_fits L) (map (proposed L now [''corr_id'', ''table_name'', ''row_count'']) [ledger_values c t n])"
    using ledger_row_fits[OF cols n] by simp
  have c1: "None \<notin> set (map (\<lambda>r. r ''corr_id'') (map (proposed L now [''corr_id'', ''table_name'', ''row_count'']) [ledger_values c t n]))"
    by (simp add: ledger_proposed_key)
  have "insert_on_conflict now ''_clean_runs'' [''corr_id'', ''table_name'', ''row_count''] [ledger_values c t n] ''corr_id'' ledger_update d
      = Inr (d(''_clean_runs'' \<mapsto> L\<lparr>trows := foldl (put_row now ''corr_id'' ledger_update) (trows L)
           (map (proposed L now [''corr_id'', ''table_name'', ''row_count'']) [ledger_values c t n])\<rparr>))"
    using L b1 b2 tpk c0 c1 by (rule insert_on_conflict_Inr)
  then show ?thesis by (simp add: record_run_def)
qed

lemma record_run_overflow:
  assumes L: "d ''_clean_runs'' = Some L" and cols: "tcols L = ledger_cols"
    and tpk: "tpk L = Some ''corr_id''" and n: "\<not> in_bigint n"
  shows "record_run d now c t n = (Inl ConversionException, d)"
proof -
  have b1: "set [''corr_id'', ''table_name'', ''row_count''] \<subseteq> set (col_names L)"
    by (simp add: ledger_col_names[OF cols])
  have b2: "set (map fst ledger_update) \<subseteq> set (col_names L)"
    by (simp add: ledger_col_names[OF cols] ledger_update_def)
  have "insert_on_conflict now ''_clean_runs'' [''corr_id'', ''table_name'', ''row_count''] [ledger_values c t n] ''corr_id'' ledger_update d
      = Inl ConversionException"
    unfolding insert_on_conflict_def Let_def using L b1 b2 tpk ledger_row_overflow[OF cols n]
    by simp
  then show ?thesis by (simp add: record_run_def)
qed

lemma find_map_same:
  assumes "\<And>x. P (f x) = P x"
  shows "find P (map f xs) = map_option f (find P xs)"
  using assms by (induction xs) auto

lemma find_None_keys:
  "v \<notin> set (map g xs) \<Longrightarrow> find (\<lambda>x. g x = v) xs = None"
  by (induction xs) auto

lemma find_Some_keys:
  "v \<in> set (map g xs) \<Longrightarrow> \<exists>x. find (\<lambda>x. g x = v) xs = Some x \<and> g x = v"
  by (induction xs) auto


lemma find_append_case:
  "find P (xs @ ys) = (case find P xs of None \<Rightarrow> find P ys | Some x \<Rightarrow> Some x)"
  by (induction xs) auto

lemma put_row_present:
  "new k \<in> set (map (\<lambda>r. r k) rows) \<Longrightarrow>
   put_row now k as rows new = map (\<lambda>r. if r k = new k then assign now new as r else r) rows"
  unfolding put_row_def by (rule if_P)

lemma put_row_absent:
  "new k \<notin> set (map (\<lambda>r. r k) rows) \<Longrightarrow> put_row now k as rows new = rows @ [new]"
  unfolding put_row_def by (rule if_not_P)

lemma put_row_find_present:
  assumes "k \<notin> set (map fst as)" and "new k \<in> set (map (\<lambda>r. r k) rows)"
  shows "find (\<lambda>r. r k = v) (put_row now k as rows new) =
     map_option (\<lambda>r. if r k = new k then assign now new as r else r) (find (\<lambda>r. r k = v) rows)"
proof -
  let ?f = "\<lambda>r. if r k = new k then assign now new as r else r"
  have "(?f x k = v) = (x k = v)" for x
  proof (cases "x k = new k")
    case True
    then show ?thesis using assign_other[OF assms(1), of now new x] by simp
  next
    case False
    then show ?thesis by simp
  qed
  then have "find (\<lambda>r. r k = v) (map ?f rows) = map_option ?f (find (\<lambda>r. r k = v) rows)"
    using find_map_same[where P = "\<lambda>r. r k = v" and f = ?f and xs = rows] by simp
  then show ?thesis
    unfolding put_row_present[where new = new and k = k and rows = rows, OF assms(2)] .
qed

lemma put_row_find_absent:
  assumes "new k \<notin> set (map (\<lambda>r. r k) rows)"
  shows "find (\<lambda>r. r k = v) (put_row now k as rows new) =
     (case find (\<lambda>r. r k = v) rows of
        None \<Rightarrow> if new k = v then Some new else None
      | Some x \<Rightarrow> Some x)"
  unfolding put_row_absent[where new = new and k = k and rows = rows, OF assms] find_append_case
  by (cases "find (\<lambda>r. r k = v) rows") simp_all


lemma ledger_assign:
  "assign now new ledger_update r ''table_name'' = new ''table_name''"
  "assign now new ledger_update r ''row_count'' = new ''row_count''"
  "assign now new ledger_update r ''processed_at'' = Some (VTime now)"
  by (simp_all add: ledger_update_def eval_expr_def)

lemma ledger_readyD:
  assumes "ledger_ready d"
  obtains L where "d ''_clean_runs'' = Some L" and "tcols L = ledger_cols"
    and "tpk L = Some ''corr_id''"
    and "distinct (ledger_keys d)" and "None \<notin> set (ledger_keys d)"
  using assms by (auto simp: ledger_ready_def pk_ok_def ledger_keys_def split: option.splits)

lemma ledger_readyI:
  assumes "d ''_clean_runs'' = Some L" and "tcols L = ledger_cols"
    and "tpk L = Some ''corr_id''"
    and "distinct (ledger_keys d)" and "None \<notin> set (ledger_keys d)"
  shows "ledger_ready d"
  using assms by (simp add: ledger_ready_def pk_ok_def ledger_keys_def)


lemma find_SomeD: "find P xs = Some x \<Longrightarrow> P x"
  by (induction xs) (auto split: if_splits)

lemma record_run_step:
  assumes rdy: "ledger_ready d" and n: "in_bigint n"
  shows "\<exists>d'. record_run d now c t n = (Inr (), d') \<and> ledger_ready d'
     \<and> ledger_keys d' = (if Some (VText c) \<in> set (ledger_keys d) then ledger_keys d
                          else ledger_keys d @ [Some (VText c)])
     \<and> ledger_entry d' c = Some (Some (VText t), Some (VInt n), Some (VTime now))
     \<and> (\<forall>c'. c' \<noteq> c \<longrightarrow> ledger_entry d' c' = ledger_entry d c')
     \<and> (\<forall>l. l \<noteq> ''_clean_runs'' \<longrightarrow> d' l = d l)"
proof -
  from rdy obtain L where L: "d ''_clean_runs'' = Some L" and cols: "tcols L = ledger_cols"
    and tpk: "tpk L = Some ''corr_id''"
    and dist: "distinct (ledger_keys d)" and nn: "None \<notin> set (ledger_keys d)"
    by (rule ledger_readyD)
  define new where "new = proposed L now [''corr_id'', ''table_name'', ''row_count''] (ledger_values c t n)"
  define rows' where "rows' = put_row now ''corr_id'' ledger_update (trows L) new"
  define d' where "d' = d(''_clean_runs'' \<mapsto> L\<lparr>trows := rows'\<rparr>)"
  have k: "''corr_id'' \<notin> set (map fst ledger_update)" by (simp add: ledger_update_def)
  have newk: "new ''corr_id'' = Some (VText c)" unfolding new_def by (rule ledger_proposed_key)
  have newv: "new ''table_name'' = Some (VText t)" "new ''row_count'' = Some (VInt n)"
      "new ''processed_at'' = Some (VTime now)"
    unfolding new_def using ledger_proposed[OF cols] by simp_all
  have keys_d: "ledger_keys d = map (\<lambda>r. r ''corr_id'') (trows L)"
    using L by (simp add: ledger_keys_def)
  have rr: "record_run d now c t n = (Inr (), d')"
    unfolding d'_def rows'_def new_def using L cols tpk n by (rule record_run_ready)
  have keys': "ledger_keys d' = (if Some (VText c) \<in> set (ledger_keys d) then ledger_keys d
                          else ledger_keys d @ [Some (VText c)])"
  proof -
    have "ledger_keys d' = map (\<lambda>r. r ''corr_id'') rows'" by (simp add: ledger_keys_def d'_def)
    also have "\<dots> = (if new ''corr_id'' \<in> set (map (\<lambda>r. r ''corr_id'') (trows L))
                      then map (\<lambda>r. r ''corr_id'') (trows L)
                      else map (\<lambda>r. r ''corr_id'') (trows L) @ [new ''corr_id''])"
      unfolding rows'_def using k by (rule put_row_keys_list)
    finally show ?thesis unfolding newk keys_d .
  qed
  have rdy': "ledger_ready d'"
  proof (rule ledger_readyI)
    show "d' ''_clean_runs'' = Some (L\<lparr>trows := rows'\<rparr>)" by (simp add: d'_def)
    show "tcols (L\<lparr>trows := rows'\<rparr>) = ledger_cols" using cols by simp
    show "tpk (L\<lparr>trows := rows'\<rparr>) = Some ''corr_id''" using tpk by simp
    show "distinct (ledger_keys d')" unfolding keys' using dist by simp
    show "None \<notin> set (ledger_keys d')" unfolding keys' using nn by simp
  qed
  have entry': "ledger_entry d' x = map_option (\<lambda>r. (r ''table_name'', r ''row_count'', r ''processed_at''))
            (find (\<lambda>r. r ''corr_id'' = Some (VText x)) rows')" for x
    by (simp add: ledger_entry_def d'_def)
  have entry: "ledger_entry d x = map_option (\<lambda>r. (r ''table_name'', r ''row_count'', r ''processed_at''))
            (find (\<lambda>r. r ''corr_id'' = Some (VText x)) (trows L))" for x
    using L by (simp add: ledger_entry_def)
  let ?f = "\<lambda>r. if r ''corr_id'' = new ''corr_id'' then assign now new ledger_update r else r"
  have this_c: "ledger_entry d' c = Some (Some (VText t), Some (VInt n), Some (VTime now))"
  proof (cases "new ''corr_id'' \<in> set (map (\<lambda>r. r ''corr_id'') (trows L))")
    case True
    then have "Some (VText c) \<in> set (map (\<lambda>r. r ''corr_id'') (trows L))" unfolding newk .
    from find_Some_keys[OF this] obtain r where
      r: "find (\<lambda>r. r ''corr_id'' = Some (VText c)) (trows L) = Some r" "r ''corr_id'' = Some (VText c)"
      by blast
    have "find (\<lambda>r. r ''corr_id'' = Some (VText c)) rows'
        = map_option ?f (find (\<lambda>r. r ''corr_id'' = Some (VText c)) (trows L))"
      unfolding rows'_def using k True by (rule put_row_find_present)
    then have "find (\<lambda>r. r ''corr_id'' = Some (VText c)) rows' = Some (assign now new ledger_update r)"
      unfolding r(1) using r(2) newk by simp
    then show ?thesis unfolding entry' by (simp add: ledger_assign newv)
  next
    case False
    then have "Some (VText c) \<notin> set (map (\<lambda>r. r ''corr_id'') (trows L))" unfolding newk .
    then have none: "find (\<lambda>r. r ''corr_id'' = Some (VText c)) (trows L) = None"
      by (rule find_None_keys)
    have "find (\<lambda>r. r ''corr_id'' = Some (VText c)) rows'
        = (case find (\<lambda>r. r ''corr_id'' = Some (VText c)) (trows L) of
             None \<Rightarrow> if new ''corr_id'' = Some (VText c) then Some new else None
           | Some x \<Rightarrow> Some x)"
      unfolding rows'_def using False by (rule put_row_find_absent)
    then have "find (\<lambda>r. r ''corr_id'' = Some (VText c)) rows' = Some new"
      unfolding none using newk by simp
    then show ?thesis unfolding entry' by (simp add: newv)
  qed
  have others: "ledger_entry d' c' = ledger_entry d c'" if "c' \<noteq> c" for c'
  proof (cases "new ''corr_id'' \<in> set (map (\<lambda>r. r ''corr_id'') (trows L))")
    case True
    have eq: "find (\<lambda>r. r ''corr_id'' = Some (VText c')) rows'
        = map_option ?f (find (\<lambda>r. r ''corr_id'' = Some (VText c')) (trows L))"
      unfolding rows'_def using k True by (rule put_row_find_present)
    show ?thesis
    proof (cases "find (\<lambda>r. r ''corr_id'' = Some (VText c')) (trows L)")
      case None
      with eq show ?thesis unfolding entry entry' by simp
    next
      case (Some r)
      then have "r ''corr_id'' = Some (VText c')" by (rule find_SomeD)
      with that newk have "?f r = r" by simp
      with eq Some show ?thesis unfolding entry entry' by simp
    qed
  next
    case False
    have eq: "find (\<lambda>r. r ''corr_id'' = Some (VText c')) rows'
        = (case find (\<lambda>r. r ''corr_id'' = Some (VText c')) (trows L) of
             None \<Rightarrow> if new ''corr_id'' = Some (VText c') then Some new else None
           | Some x \<Rightarrow> Some x)"
      unfolding rows'_def using False by (rule put_row_find_absent)
    from that newk have "new ''corr_id'' \<noteq> Some (VText c')" by simp
    with eq have "find (\<lambda>r. r ''corr_id'' = Some (VText c')) rows'
        = find (\<lambda>r. r ''corr_id'' = Some (VText c')) (trows L)"
      by (cases "find (\<lambda>r. r ''corr_id'' = Some (VText c')) (trows L)") simp_all
    then show ?thesis unfolding entry entry' by simp
  qed
  have frame: "d' l = d l" if "l \<noteq> ''_clean_runs''" for l using that by (simp add: d'_def)
  from rr rdy' keys' this_c others frame show ?thesis by blast
qed


lemma ledger_count_ready:
  assumes "ledger_ready d"
  shows "ledger_count d c = (if Some (VText c) \<in> set (ledger_keys d) then 1 else 0)"
proof -
  from assms have "distinct (ledger_keys d)" by (rule ledger_readyD)
  then show ?thesis unfolding ledger_count_def by (rule distinct_count_list)
qed

lemma record_run_count:
  assumes rdy: "ledger_ready d" and rdy': "ledger_ready d'"
    and keys: "ledger_keys d' = (if Some (VText c) \<in> set (ledger_keys d) then ledger_keys d
                          else ledger_keys d @ [Some (VText c)])"
  shows "ledger_count d' x = (if x = c then 1 else ledger_count d x)"
  unfolding ledger_count_ready[OF rdy] ledger_count_ready[OF rdy'] keys by auto

lemma last_call_Cons:
  "last_call x ((now, c, t, n) # calls) =
     (case last_call x calls of
        None \<Rightarrow> if c = x then Some (now, c, t, n) else None
      | Some y \<Rightarrow> Some y)"
  unfolding last_call_def
  by (cases "find (\<lambda>(now, c', t, n). c' = x) (rev calls)") (simp_all add: find_append_case)

text \<open>
  Claim C4, as amended. On an initialized store, every run of \<open>record_run\<close> calls whose
  row counts fit the ledger's 64-bit \<open>row_count\<close> column returns without an exception
  and leaves an initialized store. Afterwards the ledger has at most one row for every
  correlation id: exactly one for an id that was recorded, and as many as before for
  the others. The row of a recorded id holds the table name, the row count and the
  clock reading of the last call for it (the first call inserts the row, each later
  one overwrites these three columns); the entries of the other ids and all other
  tables are untouched.
\<close>

theorem record_runs_one_row_per_corr_id:
  assumes "ledger_ready d" and "list_all (\<lambda>(now, c, t, n). in_bigint n) calls"
  shows "\<exists>d'. record_runs d calls = (Inr (), d') \<and> ledger_ready d'
     \<and> (\<forall>c. ledger_count d' c \<le> 1)
     \<and> (\<forall>c. ledger_count d' c = (if c \<in> set (map (\<lambda>(now, c, t, n). c) calls) then 1 else ledger_count d c))
     \<and> (\<forall>c. ledger_entry d' c =
              (case last_call c calls of
                 None \<Rightarrow> ledger_entry d c
               | Some (now, c', t, n) \<Rightarrow> Some (Some (VText t), Some (VInt n), Some (VTime now))))
     \<and> (\<forall>l. l \<noteq> ''_clean_runs'' \<longrightarrow> d' l = d l)"
  using assms
proof (induction calls arbitrary: d)
  case Nil
  have "ledger_count d c \<le> 1" for c
    unfolding ledger_count_ready[OF Nil.prems(1)] by simp
  with Nil.prems(1) show ?case by (simp add: last_call_def)
next
  case (Cons call calls)
  obtain now c t n where call: "call = (now, c, t, n)" by (cases call)
  from Cons.prems(2) call have n: "in_bigint n"
    and rest: "list_all (\<lambda>(now, c, t, n). in_bigint n) calls" by simp_all
  from record_run_step[OF Cons.prems(1) n, of now c t] obtain d1 where
    rr: "record_run d now c t n = (Inr (), d1)" and rdy1: "ledger_ready d1"
    and keys1: "ledger_keys d1 = (if Some (VText c) \<in> set (ledger_keys d) then ledger_keys d
                          else ledger_keys d @ [Some (VText c)])"
    and e1: "ledger_entry d1 c = Some (Some (VText t), Some (VInt n), Some (VTime now))"
    and o1: "\<forall>c'. c' \<noteq> c \<longrightarrow> ledger_entry d1 c' = ledger_entry d c'"
    and f1: "\<forall>l. l \<noteq> ''_clean_runs'' \<longrightarrow> d1 l = d l"
    by blast
  have cnt1: "ledger_count d1 x = (if x = c then 1 else ledger_count d x)" for x
    using Cons.prems(1) rdy1 keys1 by (rule record_run_count)
  from Cons.IH[OF rdy1 rest] obtain d' where
    rs: "record_runs d1 calls = (Inr (), d')" and rdy': "ledger_ready d'"
    and le: "\<forall>c. ledger_count d' c \<le> 1"
    and cnt: "\<forall>x. ledger_count d' x = (if x \<in> set (map (\<lambda>(now, c, t, n). c) calls) then 1 else ledger_count d1 x)"
    and ent: "\<forall>x. ledger_entry d' x =
              (case last_call x calls of
                 None \<Rightarrow> ledger_entry d1 x
               | Some (now, c', t, n) \<Rightarrow> Some (Some (VText t), Some (VInt n), Some (VTime now)))"
    and fr: "\<forall>l. l \<noteq> ''_clean_runs'' \<longrightarrow> d' l = d1 l"
    by blast
  have run: "record_runs d (call # calls) = (Inr (), d')"
    unfolding call using rr rs by simp
  have cnt': "ledger_count d' x = (if x \<in> set (map (\<lambda>(now, c, t, n). c) (call # calls)) then 1 else ledger_count d x)" for x
    using cnt[rule_format, of x] cnt1[of x] unfolding call by auto
  have ent': "ledger_entry d' x =
              (case last_call x (call # calls) of
                 None \<Rightarrow> ledger_entry d x
               | Some (now, c', t, n) \<Rightarrow> Some (Some (VText t), Some (VInt n), Some (VTime now)))" for x
  proof (cases "last_call x calls")
    case None
    show ?thesis
    proof (cases "c = x")
      case True
      with None ent[rule_format, of x] e1 show ?thesis
        unfolding call last_call_Cons by simp
    next
      case False
      with None ent[rule_format, of x] o1 show ?thesis
        unfolding call last_call_Cons by simp
    qed
  next
    case (Some y)
    with ent[rule_format, of x] show ?thesis
      unfolding call last_call_Cons by simp
  qed
  have fr': "d' l = d l" if "l \<noteq> ''_clean_runs''" for l
    using that fr f1 by simp
  from run rdy' le cnt' ent' fr' show ?case by blast
qed


lemma ex_ledger_ready: "ledger_ready ex_store"
  by (simp add: ex_store_def ex_ledger_def ledger_ready_def pk_ok_def)

theorem record_runs_one_row_per_corr_id_witness:
  "ledger_ready ex_store
   \<and> (\<exists>d'. record_runs ex_store [(1, ''abc123'', ''crashes'', 2), (5, ''abc123'', ''crashes'', 3),
                                    (6, ''def456'', ''crashes'', 0)] = (Inr (), d')
          \<and> ledger_count d' ''abc123'' = 1
          \<and> ledger_entry d' ''abc123'' = Some (Some (VText ''crashes''), Some (VInt 3), Some (VTime 5))
          \<and> ledger_count d' ''def456'' = 1
          \<and> d' ''crashes'' = ex_store ''crashes'')"
proof -
  let ?calls = "[(1, ''abc123'', ''crashes'', 2), (5, ''abc123'', ''crashes'', 3),
                 (6, ''def456'', ''crashes'', 0)] :: (nat \<times> string \<times> string \<times> int) list"
  have fit: "list_all (\<lambda>(now, c, t, n). in_bigint n) ?calls" by (simp add: in_bigint_def)
  from record_runs_one_row_per_corr_id[OF ex_ledger_ready fit] obtain d' where
    run: "record_runs ex_store ?calls = (Inr (), d')"
    and cnt: "\<forall>c. ledger_count d' c = (if c \<in> set (map (\<lambda>(now, c, t, n). c) ?calls) then 1 else ledger_count ex_store c)"
    and ent: "\<forall>c. ledger_entry d' c =
              (case last_call c ?calls of
                 None \<Rightarrow> ledger_entry ex_store c
               | Some (now, c', t, n) \<Rightarrow> Some (Some (VText t), Some (VInt n), Some (VTime now)))"
    and fr: "\<forall>l. l \<noteq> ''_clean_runs'' \<longrightarrow> d' l = ex_store l"
    by blast
  have c1: "ledger_count d' ''abc123'' = 1" using cnt[rule_format, of "''abc123''"] by simp
  have c2: "ledger_count d' ''def456'' = 1" using cnt[rule_format, of "''def456''"] by simp
  have e1: "ledger_entry d' ''abc123'' = Some (Some (VText ''crashes''), Some (VInt 3), Some (VTime 5))"
    using ent[rule_format, of "''abc123''"] by (simp add: last_call_def)
  have g: "d' ''crashes'' = ex_store ''crashes''" using fr by simp
  from ex_ledger_ready run c1 e1 c2 g show ?thesis by blast
qed

text \<open>
  Claim C4, as stated, fails on an initialized store for a row count beyond 64 bits:
  the insert into the \<open>BIGINT\<close> column raises a conversion error and nothing is
  recorded.
\<close>

theorem record_run_row_count_overflow:
  "ledger_ready ex_store
   \<and> record_runs ex_store [(1, ''abc123'', ''crashes'', 9223372036854775808)]
       = (Inl ConversionException, ex_store)"
proof -
  have L: "ex_store ''_clean_runs'' = Some ex_ledger" by (simp add: ex_store_def)
  have cols: "tcols ex_ledger = ledger_cols" by (simp add: ex_ledger_def)
  have tpk: "tpk ex_ledger = Some ''corr_id''" by (simp add: ex_ledger_def)
  have n: "\<not> in_bigint 9223372036854775808" by (simp add: in_bigint_def)
  have "record_run ex_store 1 ''abc123'' ''crashes'' 9223372036854775808 = (Inl ConversionException, ex_store)"
    using L cols tpk n by (rule record_run_overflow)
  with ex_ledger_ready show ?thesis by simp
qed


lemma ex_rows: "df_rows ex_batch = [row_at ex_batch 0, row_at ex_batch (Suc 0)]"
  by (simp add: df_rows_def nrows_def ex_batch_def upt_rec)

lemma ex_ne: "\<not> df_empty ex_batch" "''crash_record_id'' \<in> set (columns ex_batch)"
  by (simp_all add: df_empty_def nrows_def ex_batch_def columns_def)

lemma ex_ensure: "ensure_table ''crashes'' ex_batch ''crash_record_id'' ex_store = (Inr (), ex_store)"
  by (simp add: ensure_table_def create_table_as_def add_primary_key_def ex_store_def ex_gold_def)

lemma ex_evolve: "evolve_schema ''crashes'' ex_batch ex_store = (Inr (), ex_store(''crashes'' \<mapsto> ex_gold2))"
  by (simp add: evolve_schema_def needed_cols_def col_names_def columns_def add_column_def
        infer_df_types_def ex_store_def ex_gold_def ex_batch_def ex_gold2_def)

lemma ex_keys: "row_at ex_batch 0 ''crash_record_id'' = Some (VText ''X2'')"
   "row_at ex_batch (Suc 0) ''crash_record_id'' = Some (VText ''X3'')"
  by (simp_all add: row_at_def ex_batch_def)

lemma ex_cols: "upsert_cols ex_gold2 ex_batch ''crash_record_id'' = [''crash_record_id'', ''make'']"
  by (simp add: upsert_cols_def col_names_def columns_def ex_gold2_def ex_batch_def)

lemma ex_trows: "trows ex_gold2 = [((\<lambda>c. None)(''crash_record_id'' \<mapsto> VText ''X1''))(''make'' := None)]"
  by (simp add: ex_gold2_def)

lemma ex_rows_after:
  "map (\<lambda>r. r ''crash_record_id'')
     (foldl (put_row 0 ''crash_record_id'' (update_set [''crash_record_id'', ''make''] ''crash_record_id''))
        (trows ex_gold2) (map (proposed ex_gold2 0 [''crash_record_id'', ''make'']) (df_rows ex_batch)))
   = [Some (VText ''X1''), Some (VText ''X2''), Some (VText ''X3'')]"
  by (simp add: ex_rows ex_trows put_row_def proposed_listed ex_keys)

lemma count_join_inner:
  "length [(r, s). s \<leftarrow> src, r k \<noteq> None \<and> r k = s k]
   = length [(r k, b). b \<leftarrow> map (\<lambda>s. s k) src, r k \<noteq> None \<and> r k = b]"
  by (induction src) auto

lemma count_join_keys:
  "count_join k rows src = count_pairs (map (\<lambda>r. r k) rows) (map (\<lambda>s. s k) src)"
  unfolding count_join_def count_pairs_def
proof (induction rows)
  case Nil
  show ?case by simp
next
  case (Cons r rows)
  have "length [(r', s). r' \<leftarrow> r # rows, s \<leftarrow> src, r' k \<noteq> None \<and> r' k = s k]
      = length [(r, s). s \<leftarrow> src, r k \<noteq> None \<and> r k = s k]
        + length [(r', s). r' \<leftarrow> rows, s \<leftarrow> src, r' k \<noteq> None \<and> r' k = s k]"
    by simp
  also have "\<dots> = length [(r k, b). b \<leftarrow> map (\<lambda>s. s k) src, r k \<noteq> None \<and> r k = b]
        + length [(a, b). a \<leftarrow> map (\<lambda>r. r k) rows, b \<leftarrow> map (\<lambda>s. s k) src, a \<noteq> None \<and> a = b]"
    by (simp only: count_join_inner Cons.IH)
  also have "\<dots> = length [(a, b). a \<leftarrow> map (\<lambda>r. r k) (r # rows), b \<leftarrow> map (\<lambda>s. s k) src, a \<noteq> None \<and> a = b]"
    by simp
  finally show ?case .
qed

lemma fits_varchar: "fits ''VARCHAR'' v"
  by (simp add: fits_def int_range_def)

lemma ex_gold2_fits: "row_fits ex_gold2 r"
  by (simp add: row_fits_def ex_gold2_def fits_varchar)

lemma ex_upsert_rows:
  "fst (upsert_rows 0 ''crashes'' ex_batch ''crash_record_id'' (ex_store(''crashes'' \<mapsto> ex_gold2))) = Inr 2"
proof -
  let ?d = "ex_store(''crashes'' \<mapsto> ex_gold2)"
  let ?cols = "[''crash_record_id'', ''make'']"
  let ?as = "update_set ?cols ''crash_record_id''"
  let ?news = "map (proposed ex_gold2 0 ?cols) (df_rows ex_batch)"
  have T: "?d ''crashes'' = Some ex_gold2" by simp
  have b1: "set ?cols \<subseteq> set (col_names ex_gold2)" by (simp add: col_names_def ex_gold2_def)
  have b2: "set (map fst ?as) \<subseteq> set (col_names ex_gold2)"
    by (simp add: update_set_def col_names_def ex_gold2_def)
  have tpk: "tpk ex_gold2 = Some ''crash_record_id''" by (simp add: ex_gold2_def)
  have c1: "None \<notin> set (map (\<lambda>r. r ''crash_record_id'') ?news)"
    by (simp add: ex_rows proposed_listed ex_keys)
  have c0: "list_all (row_fits ex_gold2) ?news"
    by (simp add: list_all_iff ex_gold2_fits)
  have ins: "insert_on_conflict 0 ''crashes'' ?cols (df_rows ex_batch) ''crash_record_id'' ?as ?d
     = Inr (?d(''crashes'' \<mapsto> ex_gold2\<lparr>trows := foldl (put_row 0 ''crash_record_id'' ?as) (trows ex_gold2) ?news\<rparr>))"
    using T b1 b2 tpk c0 c1 by (rule insert_on_conflict_Inr)
  have srckeys: "map (\<lambda>s. s ''crash_record_id'') (df_rows ex_batch) = [Some (VText ''X2''), Some (VText ''X3'')]"
    by (simp add: ex_rows ex_keys)
  have "count_join ''crash_record_id'' (foldl (put_row 0 ''crash_record_id'' ?as) (trows ex_gold2) ?news) (df_rows ex_batch) = 2"
    unfolding count_join_keys ex_rows_after srckeys by (simp add: count_pairs_def)
  then show ?thesis
    by (simp add: upsert_rows_def ex_cols ins)
qed

lemma ex_upsert: "fst (upsert ex_store 0 ''crashes'' ex_batch ''crash_record_id'') = Inr 2"
proof -
  have "upsert ex_store 0 ''crashes'' ex_batch ''crash_record_id''
        = upsert_rows 0 ''crashes'' ex_batch ''crash_record_id'' (ex_store(''crashes'' \<mapsto> ex_gold2))"
    by (simp add: upsert_unfold[OF ex_ne] ex_ensure ex_evolve)
  then show ?thesis using ex_upsert_rows by simp
qed

text \<open>
  Claim C10. An empty batch (a frame without rows, or without columns) makes \<open>upsert\<close>
  return 0 at once: the store it leaves is the store it was given, whatever the table
  name and the primary key are. No table is created, no column added, no row written.
\<close>

theorem upsert_empty_batch:
  "df_empty df \<Longrightarrow> upsert d now t df pk = (Inr 0, d)"
  by (simp add: upsert_def)

theorem upsert_empty_batch_witness:
  "df_empty [(''crash_record_id'', Text []), (''damage'', Text [])]
   \<and> upsert fresh_store 0 ''crashes'' [(''crash_record_id'', Text []), (''damage'', Text [])] ''crash_record_id''
       = (Inr 0, fresh_store)"
proof -
  have e: "df_empty [(''crash_record_id'', Text []), (''damage'', Text [])]"
    by (simp add: df_empty_def nrows_def)
  from e upsert_empty_batch[OF e, of fresh_store 0 "''crashes''" "''crash_record_id''"]
  show ?thesis by simp
qed

lemma ex_gold_rows: "trows ex_gold = [(\<lambda>c. None)(''crash_record_id'' \<mapsto> VText ''X1'')]"
  by (simp add: ex_gold_def)

lemma ex_gold_row_mem: "(\<lambda>c. None)(''crash_record_id'' \<mapsto> VText ''X1'') \<in> set (trows ex_gold)"
  unfolding ex_gold_rows by (rule list.set_intros(1))

lemma ex_needed: "needed_cols ex_gold ex_batch = [''make'']"
    by (simp add: needed_cols_def col_names_def columns_def ex_gold_def ex_batch_def)

lemma ex_batch_keys: "(\<lambda>s. s ''crash_record_id'') ` set (df_rows ex_batch) = {Some (VText ''X2''), Some (VText ''X3'')}"
    by (simp add: ex_rows ex_keys)

lemma ex_gold_key_fresh: "((\<lambda>c. None)(''crash_record_id'' \<mapsto> VText ''X1'')) ''crash_record_id''
     \<notin> (\<lambda>s. s ''crash_record_id'') ` set (df_rows ex_batch)"
  unfolding ex_batch_keys by simp

theorem upsert_schema_growth_witness:
  "\<exists>T'. snd (upsert ex_store 0 ''crashes'' ex_batch ''crash_record_id'') ''crashes'' = Some T'
     \<and> map fst (tcols T') = [''crash_record_id'', ''make'']
     \<and> blank [''make''] ((\<lambda>c. None)(''crash_record_id'' \<mapsto> VText ''X1'')) \<in> set (trows T')"
proof -
  define d' where "d' = snd (upsert ex_store 0 ''crashes'' ex_batch ''crash_record_id'')"
  define r0 :: row where "r0 = (\<lambda>c. None)(''crash_record_id'' \<mapsto> VText ''X1'')"
  have T: "ex_store ''crashes'' = Some ex_gold" by (simp add: ex_store_def)
  have u: "upsert ex_store 0 ''crashes'' ex_batch ''crash_record_id'' = (Inr 2, d')"
    unfolding d'_def using ex_upsert by (simp add: prod_eq_iff)
  have r0: "r0 \<in> set (trows ex_gold)" unfolding r0_def by (rule ex_gold_row_mem)
  have nk0: "r0 ''crash_record_id'' \<notin> (\<lambda>s. s ''crash_record_id'') ` set (df_rows ex_batch)"
    unfolding r0_def by (rule ex_gold_key_fresh)
  from upsert_schema_growth[OF T u] obtain T' added where
    T1: "d' ''crashes'' = Some T'" and T2: "tcols T' = tcols ex_gold @ added"
    and T3: "\<not> df_empty ex_batch \<and> (\<exists>n. (Inr 2 :: error + nat) = Inr n) \<longrightarrow> map fst added = needed_cols ex_gold ex_batch"
    and T4: "\<forall>r \<in> set (trows ex_gold). r ''crash_record_id'' \<notin> (\<lambda>s. s ''crash_record_id'') ` set (df_rows ex_batch) \<longrightarrow>
          blank (map fst added) r \<in> set (trows T')"
    by blast
  have "\<exists>n. (Inr 2 :: error + nat) = Inr n" by simp
  with T3 ex_ne(1) have "map fst added = needed_cols ex_gold ex_batch" by simp
  then have added: "map fst added = [''make'']" unfolding ex_needed .
  from T4 r0 have "r0 ''crash_record_id'' \<notin> (\<lambda>s. s ''crash_record_id'') ` set (df_rows ex_batch) \<longrightarrow>
          blank (map fst added) r0 \<in> set (trows T')" by (rule bspec)
  with nk0 have "blank (map fst added) r0 \<in> set (trows T')" by simp
  then have b: "blank [''make''] r0 \<in> set (trows T')" unfolding added .
  have c: "map fst (tcols T') = [''crash_record_id'', ''make'']"
    unfolding T2 using added by (simp add: ex_gold_def)
  show ?thesis
    unfolding d'_def[symmetric] r0_def[symmetric]
    using T1 c b by (intro exI[of _ T'] conjI)
qed

lemma record_run_no_ledger:
  "d ''_clean_runs'' = None \<Longrightarrow> record_run d now c t n = (Inl CatalogException, d)"
  by (simp add: record_run_def insert_on_conflict_def)

lemma init_meta_raises: "init_meta d = (Inl ParserException, d)"
  by (simp add: init_meta_def create_table_target_def init_meta_sql_def)



lemma fr_ensure:
  "ensure_table ''crashes'' ex_batch ''crash_record_id'' fresh_store
     = (Inr (), fresh_store(''crashes'' \<mapsto> ex_created))"
  by (simp add: ensure_table_def create_table_as_def add_primary_key_def infer_df_types_def
        col_names_def fresh_store_def ex_batch_def ex_created_def)

lemma fr_evolve:
  "evolve_schema ''crashes'' ex_batch (fresh_store(''crashes'' \<mapsto> ex_created))
     = (Inr (), fresh_store(''crashes'' \<mapsto> ex_created))"
  by (simp add: evolve_schema_def needed_cols_def col_names_def columns_def ex_batch_def ex_created_def)

lemma fr_cols: "upsert_cols ex_created ex_batch ''crash_record_id'' = [''crash_record_id'', ''make'']"
  by (simp add: upsert_cols_def col_names_def columns_def ex_created_def ex_batch_def)

lemma ex_created_fits: "row_fits ex_created r"
  by (simp add: row_fits_def ex_created_def fits_varchar)

lemma ex_created_rows: "trows ex_created = []"
  by (simp add: ex_created_def)

lemma fr_rows_after:
  "map (\<lambda>r. r ''crash_record_id'')
     (foldl (put_row now ''crash_record_id'' (update_set [''crash_record_id'', ''make''] ''crash_record_id''))
        (trows ex_created) (map (proposed ex_created now [''crash_record_id'', ''make'']) (df_rows ex_batch)))
   = [Some (VText ''X2''), Some (VText ''X3'')]"
  by (simp add: ex_rows ex_created_rows put_row_def proposed_listed ex_keys)

lemma fr_upsert_rows:
  "fst (upsert_rows now ''crashes'' ex_batch ''crash_record_id'' (fresh_store(''crashes'' \<mapsto> ex_created))) = Inr 2"
proof -
  let ?d = "fresh_store(''crashes'' \<mapsto> ex_created)"
  let ?cols = "[''crash_record_id'', ''make'']"
  let ?as = "update_set ?cols ''crash_record_id''"
  let ?news = "map (proposed ex_created now ?cols) (df_rows ex_batch)"
  have T: "?d ''crashes'' = Some ex_created" by simp
  have b1: "set ?cols \<subseteq> set (col_names ex_created)" by (simp add: col_names_def ex_created_def)
  have b2: "set (map fst ?as) \<subseteq> set (col_names ex_created)"
    by (simp add: update_set_def col_names_def ex_created_def)
  have tpk: "tpk ex_created = Some ''crash_record_id''" by (simp add: ex_created_def)
  have c0: "list_all (row_fits ex_created) ?news"
    by (simp add: list_all_iff ex_created_fits)
  have c1: "None \<notin> set (map (\<lambda>r. r ''crash_record_id'') ?news)"
    by (simp add: ex_rows proposed_listed ex_keys)
  have ins: "insert_on_conflict now ''crashes'' ?cols (df_rows ex_batch) ''crash_record_id'' ?as ?d
     = Inr (?d(''crashes'' \<mapsto> ex_created\<lparr>trows := foldl (put_row now ''crash_record_id'' ?as) (trows ex_created) ?news\<rparr>))"
    using T b1 b2 tpk c0 c1 by (rule insert_on_conflict_Inr)
  have srckeys: "map (\<lambda>s. s ''crash_record_id'') (df_rows ex_batch) = [Some (VText ''X2''), Some (VText ''X3'')]"
    by (simp add: ex_rows ex_keys)
  have "count_join ''crash_record_id'' (foldl (put_row now ''crash_record_id'' ?as) (trows ex_created) ?news) (df_rows ex_batch) = 2"
    unfolding count_join_keys fr_rows_after srckeys by (simp add: count_pairs_def)
  then show ?thesis
    by (simp add: upsert_rows_def fr_cols ins)
qed

lemma fr_upsert: "fst (upsert fresh_store now ''crashes'' ex_batch ''crash_record_id'') = Inr 2"
proof -
  have "upsert fresh_store now ''crashes'' ex_batch ''crash_record_id''
        = upsert_rows now ''crashes'' ex_batch ''crash_record_id'' (fresh_store(''crashes'' \<mapsto> ex_created))"
    by (simp add: upsert_unfold[OF ex_ne] fr_ensure fr_evolve)
  then show ?thesis using fr_upsert_rows by simp
qed

lemma write_gold_no_ledger:
  assumes "d ''_clean_runs'' = None"
  shows "(\<exists>e. fst (write_gold d now c df) = Inl e)
         \<and> snd (write_gold d now c df) ''_clean_runs'' = None"
proof -
  obtain r d1 where u: "upsert d now ''crashes'' df ''crash_record_id'' = (r, d1)"
    by (cases "upsert d now ''crashes'' df ''crash_record_id''")
  have "d1 ''_clean_runs'' = d ''_clean_runs''"
    using u by (rule upsert_other) simp
  with assms have led: "d1 ''_clean_runs'' = None" by simp
  show ?thesis
  proof (cases r)
    case (Inl e)
    with u led show ?thesis by (simp add: write_gold_def)
  next
    case (Inr m)
    with u led show ?thesis
      by (simp add: write_gold_def record_run_no_ledger)
  qed
qed

lemma ledger_count_no_ledger: "d ''_clean_runs'' = None \<Longrightarrow> ledger_count d c = 0"
  by (simp add: ledger_count_def ledger_keys_def)


lemma write_gold_catalog:
  assumes u: "upsert d now ''crashes'' df ''crash_record_id'' = (Inr m, d1)"
    and f: "d ''_clean_runs'' = None"
  shows "fst (write_gold d now c df) = Inl CatalogException"
proof -
  have "d1 ''_clean_runs'' = d ''_clean_runs''" using u by (rule upsert_other) simp
  with f have "d1 ''_clean_runs'' = None" by simp
  then have "record_run d1 now c ''crashes'' (int (nrows df)) = (Inl CatalogException, d1)"
    by (rule record_run_no_ledger)
  with u show ?thesis by (simp add: write_gold_def)
qed

text \<open>
  Claim C1. On the store of a new database file the constructor of the writer raises
  (the statement of \<open>_init_meta\<close> does not parse), and no ledger table exists. The two
  writes of a clean job then end in a catalog error: \<open>upsert\<close> stores the batch and
  returns, \<open>record_run\<close> finds no ledger table. Run a second time with the same batch
  and the same correlation id they raise again, and the ledger holds no row for the id
  after either run.
\<close>

theorem clean_run_twice_new_file:
  "init_meta fresh_store = (Inl ParserException, fresh_store)
   \<and> fst (upsert fresh_store 1 ''crashes'' ex_batch ''crash_record_id'') = Inr 2
   \<and> fst (write_gold fresh_store 1 ''abc123'' ex_batch) = Inl CatalogException
   \<and> ledger_count (snd (write_gold fresh_store 1 ''abc123'' ex_batch)) ''abc123'' = 0
   \<and> (\<exists>e. fst (write_gold (snd (write_gold fresh_store 1 ''abc123'' ex_batch)) 2 ''abc123'' ex_batch) = Inl e)
   \<and> ledger_count (snd (write_gold (snd (write_gold fresh_store 1 ''abc123'' ex_batch)) 2 ''abc123'' ex_batch))
         ''abc123'' = 0"
proof -
  define d1 where "d1 = snd (write_gold fresh_store 1 ''abc123'' ex_batch)"
  have f: "fresh_store ''_clean_runs'' = None" by (simp add: fresh_store_def)
  have u: "upsert fresh_store 1 ''crashes'' ex_batch ''crash_record_id''
           = (Inr 2, snd (upsert fresh_store 1 ''crashes'' ex_batch ''crash_record_id''))"
    using fr_upsert[of 1] by (simp add: prod_eq_iff)
  have "snd (upsert fresh_store 1 ''crashes'' ex_batch ''crash_record_id'') ''_clean_runs''
        = fresh_store ''_clean_runs''"
    using u by (rule upsert_other) simp
  then have nl: "snd (upsert fresh_store 1 ''crashes'' ex_batch ''crash_record_id'') ''_clean_runs'' = None"
    using f by simp
  have a: "init_meta fresh_store = (Inl ParserException, fresh_store)" by (rule init_meta_raises)
  have b: "fst (upsert fresh_store 1 ''crashes'' ex_batch ''crash_record_id'') = Inr 2"
    by (rule fr_upsert)
  have c: "fst (write_gold fresh_store 1 ''abc123'' ex_batch) = Inl CatalogException"
    using write_gold_catalog[where d = fresh_store, OF u f] .
  from write_gold_no_ledger[where d = fresh_store and now = 1 and c = "''abc123''" and df = ex_batch, OF f]
  have l1: "d1 ''_clean_runs'' = None" unfolding d1_def by simp
  from write_gold_no_ledger[where d = d1 and now = 2 and c = "''abc123''" and df = ex_batch, OF l1]
  have e2: "\<exists>e. fst (write_gold d1 2 ''abc123'' ex_batch) = Inl e"
    and l2: "snd (write_gold d1 2 ''abc123'' ex_batch) ''_clean_runs'' = None" by simp_all
  have c1: "ledger_count d1 ''abc123'' = 0"
    using ledger_count_no_ledger[where d = d1, OF l1] .
  have c2: "ledger_count (snd (write_gold d1 2 ''abc123'' ex_batch)) ''abc123'' = 0"
    using ledger_count_no_ledger[where d = "snd (write_gold d1 2 ''abc123'' ex_batch)", OF l2] .
  from a b c c1 e2 c2 show ?thesis unfolding d1_def by blast
qed


end
